theory Spec2Isabelle
  imports Complex_Main
begin

section \<open>Numeric values\<close>

text \<open>
  The sampler of \<^verbatim>\<open>DRAMMIMO.py\<close> computes with numpy's 64-bit floats. A value is
  modelled as a real number or one of the three special values the code itself produces
  and tests (\<^verbatim>\<open>float('inf')\<close>, \<^verbatim>\<open>np.isnan\<close>). Rounding, overflow and the sign of
  zero are outside the model: arithmetic on finite values is exact real arithmetic, and a
  finite value divided by zero has the sign of the numerator.
\<close>

datatype fl = Fin real | PInf | NInf | NaN

fun fl_isnan :: "fl \<Rightarrow> bool" where
  "fl_isnan NaN = True"
| "fl_isnan _ = False"

fun fl_sign :: "fl \<Rightarrow> int" where
  "fl_sign (Fin x) = (if x < 0 then - 1 else if x = 0 then 0 else 1)"
| "fl_sign PInf = 1"
| "fl_sign NInf = - 1"
| "fl_sign NaN = 0"

definition inf_of_sign :: "int \<Rightarrow> fl" where
  "inf_of_sign s = (if 0 < s then PInf else if s < 0 then NInf else NaN)"

fun fl_neg :: "fl \<Rightarrow> fl" where
  "fl_neg (Fin x) = Fin (- x)"
| "fl_neg PInf = NInf"
| "fl_neg NInf = PInf"
| "fl_neg NaN = NaN"

fun fl_add :: "fl \<Rightarrow> fl \<Rightarrow> fl" where
  "fl_add NaN _ = NaN"
| "fl_add _ NaN = NaN"
| "fl_add (Fin a) (Fin b) = Fin (a + b)"
| "fl_add PInf NInf = NaN"
| "fl_add NInf PInf = NaN"
| "fl_add PInf _ = PInf"
| "fl_add _ PInf = PInf"
| "fl_add NInf _ = NInf"
| "fl_add _ NInf = NInf"

definition fl_sub :: "fl \<Rightarrow> fl \<Rightarrow> fl" where
  "fl_sub a b = fl_add a (fl_neg b)"

fun fl_mul :: "fl \<Rightarrow> fl \<Rightarrow> fl" where
  "fl_mul NaN _ = NaN"
| "fl_mul _ NaN = NaN"
| "fl_mul (Fin a) (Fin b) = Fin (a * b)"
| "fl_mul a b = inf_of_sign (fl_sign a * fl_sign b)"

fun fl_div :: "fl \<Rightarrow> fl \<Rightarrow> fl" where
  "fl_div NaN _ = NaN"
| "fl_div _ NaN = NaN"
| "fl_div (Fin a) (Fin b) = (if b = 0 then inf_of_sign (fl_sign (Fin a)) else Fin (a / b))"
| "fl_div (Fin a) _ = Fin 0"
| "fl_div a (Fin b) = inf_of_sign (fl_sign a * (if b < 0 then - 1 else 1))"
| "fl_div _ _ = NaN"

fun fl_exp :: "fl \<Rightarrow> fl" where
  "fl_exp (Fin x) = Fin (exp x)"
| "fl_exp PInf = PInf"
| "fl_exp NInf = Fin 0"
| "fl_exp NaN = NaN"

text \<open>Comparisons: every comparison with NaN is false.\<close>

fun fl_lt :: "fl \<Rightarrow> fl \<Rightarrow> bool" where
  "fl_lt NaN _ = False"
| "fl_lt _ NaN = False"
| "fl_lt (Fin a) (Fin b) = (a < b)"
| "fl_lt _ NInf = False"
| "fl_lt PInf _ = False"
| "fl_lt NInf _ = True"
| "fl_lt _ PInf = True"

definition fl_gt :: "fl \<Rightarrow> fl \<Rightarrow> bool" where
  "fl_gt a b = fl_lt b a"

fun fl_eq :: "fl \<Rightarrow> fl \<Rightarrow> bool" where
  "fl_eq NaN _ = False"
| "fl_eq _ NaN = False"
| "fl_eq a b = (a = b)"

text \<open>
  Python's builtin \<^verbatim>\<open>min(a, b)\<close> keeps \<open>a\<close> unless \<open>b < a\<close>; with \<open>b\<close> NaN it
  returns \<open>a\<close>.
\<close>

definition py_min :: "fl \<Rightarrow> fl \<Rightarrow> fl" where
  "py_min a b = (if fl_lt b a then b else a)"

text \<open>A boolean array entry used as a number (\<^verbatim>\<open>(q!=0)*x\<close>).\<close>

definition fl_of_bool :: "bool \<Rightarrow> fl" where
  "fl_of_bool b = (if b then Fin 1 else Fin 0)"

section \<open>Vectors and matrices\<close>

text \<open>
  A vector is a list; a matrix is the list of its rows. Column vectors of shape
  \<open>(p,1)\<close> (\<^verbatim>\<open>q\<close>, \<^verbatim>\<open>qBar\<close>) are kept as vectors.
\<close>

type_synonym vec = "fl list"
type_synonym mat = "fl list list"

definition fl_sum :: "vec \<Rightarrow> fl" where
  "fl_sum xs = foldl fl_add (Fin 0) xs"

definition dotp :: "vec \<Rightarrow> vec \<Rightarrow> fl" where
  "dotp xs ys = fl_sum (map2 fl_mul xs ys)"

definition mat_vec :: "mat \<Rightarrow> vec \<Rightarrow> vec" where
  "mat_vec A v = map (\<lambda>row. dotp row v) A"

definition vec_mat :: "vec \<Rightarrow> mat \<Rightarrow> vec" where
  "vec_mat v A = map (\<lambda>col. dotp v col) (transpose A)"

definition mat_mul :: "mat \<Rightarrow> mat \<Rightarrow> mat" where
  "mat_mul A B = map (\<lambda>row. vec_mat row B) A"

definition vec_add :: "vec \<Rightarrow> vec \<Rightarrow> vec" where
  "vec_add xs ys = map2 fl_add xs ys"

definition vec_sub :: "vec \<Rightarrow> vec \<Rightarrow> vec" where
  "vec_sub xs ys = map2 fl_sub xs ys"

definition vec_scale :: "fl \<Rightarrow> vec \<Rightarrow> vec" where
  "vec_scale c xs = map (fl_mul c) xs"

definition vec_div :: "vec \<Rightarrow> fl \<Rightarrow> vec" where
  "vec_div xs c = map (\<lambda>x. fl_div x c) xs"

definition mat_add :: "mat \<Rightarrow> mat \<Rightarrow> mat" where
  "mat_add A B = map2 vec_add A B"

definition mat_sub :: "mat \<Rightarrow> mat \<Rightarrow> mat" where
  "mat_sub A B = map2 vec_sub A B"

definition mat_scale :: "fl \<Rightarrow> mat \<Rightarrow> mat" where
  "mat_scale c A = map (vec_scale c) A"

definition mat_times :: "mat \<Rightarrow> fl \<Rightarrow> mat" where
  "mat_times A c = map (map (\<lambda>x. fl_mul x c)) A"

definition mat_div :: "mat \<Rightarrow> fl \<Rightarrow> mat" where
  "mat_div A c = map (\<lambda>row. vec_div row c) A"

text \<open>\<^verbatim>\<open>1.0/A\<close>, elementwise (the code's inverse of a 1-by-1 matrix).\<close>

definition mat_recip :: "mat \<Rightarrow> mat" where
  "mat_recip A = map (map (\<lambda>x. fl_div (Fin 1) x)) A"

text \<open>\<^verbatim>\<open>np.dot(u, v.T)\<close> for column vectors \<open>u\<close> and \<open>v\<close>.\<close>

definition outer :: "vec \<Rightarrow> vec \<Rightarrow> mat" where
  "outer u v = map (\<lambda>a. map (\<lambda>b. fl_mul a b) v) u"

definition trace :: "mat \<Rightarrow> fl" where
  "trace A = fl_sum (map (\<lambda>i. A ! i ! i) [0..<length A])"

definition zeros :: "nat \<Rightarrow> nat \<Rightarrow> mat" where
  "zeros r c = replicate r (replicate c (Fin 0))"

text \<open>\<^verbatim>\<open>np.diag(d)\<close>: the square matrix with \<open>d\<close> on its diagonal.\<close>

definition diag :: "vec \<Rightarrow> mat" where
  "diag d = map (\<lambda>i. (replicate (length d) (Fin 0))[i := d ! i]) [0..<length d]"

text \<open>\<^verbatim>\<open>np.mean(A, 0)\<close>: the mean of every column of \<open>A\<close>.\<close>

definition mean :: "vec \<Rightarrow> fl" where
  "mean xs = fl_div (fl_sum xs) (Fin (real (length xs)))"

definition col_means :: "mat \<Rightarrow> vec" where
  "col_means A = map mean (transpose A)"

text \<open>
  \<^verbatim>\<open>np.cov(A.T)\<close> for a matrix \<open>A\<close> whose rows are observations: the covariance of
  the columns of \<open>A\<close>, normalised by the number of rows minus one.
\<close>

definition np_cov :: "mat \<Rightarrow> mat" where
  "np_cov A =
     (let cols = transpose A;
          centred = map (\<lambda>c. map (\<lambda>x. fl_sub x (mean c)) c) cols
      in map (\<lambda>ci. map (\<lambda>cj. fl_div (dotp ci cj) (Fin (real (length A) - 1))) centred)
           centred)"

section \<open>Inputs of the sampler\<close>

text \<open>
  The dictionaries \<^verbatim>\<open>data\<close>, \<^verbatim>\<open>model\<close> and \<^verbatim>\<open>modelParams\<close> in one record. The
  type \<open>'e\<close> is the caller's \<^verbatim>\<open>extra\<close> blob. An error function returns the residual
  series of its data set.
\<close>

record 'e model_data =
  xdata :: "vec list"
  ydata :: "vec list"
  model_fun :: "(vec \<Rightarrow> vec \<Rightarrow> 'e \<Rightarrow> vec) list"
  errFun :: "(vec \<Rightarrow> vec \<Rightarrow> vec \<Rightarrow> 'e \<Rightarrow> vec) list"
  extra :: "'e list"
  param_values :: vec
  lowerLimits :: vec
  upperLimits :: vec

text \<open>
  \<^verbatim>\<open>DRAMParams['previousResults']\<close>. A field the caller left as the placeholder
  \<^verbatim>\<open>np.empty\<close> is \<open>None\<close>.
\<close>

record previous_results =
  prior_psi_s :: "mat option"
  prior_nu_s :: "fl option"
  prev_chain_q :: "mat option"
  prev_last_cov_q :: "mat option"
  prev_chain_cov_err :: "mat list option"

record dram_params =
  numDRAMIterationsDone :: nat
  numDRAMIterations :: nat
  previousResults :: previous_results

text \<open>
  The exceptions of the code as values. \<open>NotAnArray\<close> stands for the failure of an
  array operation on the placeholder \<^verbatim>\<open>np.empty\<close>; \<open>LinAlgError\<close> for a failed
  inversion, factorisation or inverse-Wishart draw.
\<close>

datatype error = ValueError string | IndexError | NotAnArray | LinAlgError

section \<open>Validation of the inputs\<close>

definition numDataSets :: "'e model_data \<Rightarrow> nat list" where
  "numDataSets md =
     [length (xdata md), length (ydata md), length (model_fun md), length (errFun md),
      length (extra md)]"

definition numDataPoints :: "'e model_data \<Rightarrow> nat \<Rightarrow> nat list list" where
  "numDataPoints md N = map (\<lambda>i. [length (xdata md ! i), length (ydata md ! i)]) [0..<N]"

text \<open>
  Lines 72 to 92. The result is \<open>(N, n, p)\<close>. With no data set the table of point
  counts is empty and reading its entry \<open>[0,0]\<close> raises \<^verbatim>\<open>IndexError\<close>.
\<close>

definition validate :: "'e model_data \<Rightarrow> dram_params \<Rightarrow> error + (nat \<times> nat \<times> nat)" where
  "validate md dp =
     (let nds = numDataSets md in
      if list_ex (\<lambda>c. c \<noteq> hd nds) nds
      then Inl (ValueError ''Unequal numbers of sets in either data or model.'')
      else
        let N = hd nds; ndp = numDataPoints md N in
        if N = 0 then Inl IndexError
        else if list_ex (list_ex (\<lambda>c. c \<noteq> hd (hd ndp))) ndp
        then Inl (ValueError ''Unequal numbers of data points.'')
        else
          let n = hd (hd ndp); p = length (param_values md);
              Mo = numDRAMIterationsDone dp
          in if Mo \<noteq> 1
             then (case prev_chain_q (previousResults dp) of
                     None \<Rightarrow> Inl NotAnArray
                   | Some c \<Rightarrow>
                       if Mo \<noteq> length c
                       then Inl (ValueError
                         ''The number of given previous results does not match the number of iterations already done.'')
                       else Inr (N, n, p))
             else Inr (N, n, p))"

section \<open>Prior of the residual covariance\<close>

record prior =
  psi_s :: mat
  nu_s :: fl

text \<open>Lines 139 to 148.\<close>

definition init_prior :: "nat \<Rightarrow> previous_results \<Rightarrow> prior" where
  "init_prior N pr =
     (case prior_psi_s pr of
        None \<Rightarrow> \<lparr>psi_s = zeros N N, nu_s = Fin 0\<rparr>
      | Some P \<Rightarrow>
          \<lparr>psi_s = P,
           nu_s = (case prior_nu_s pr of None \<Rightarrow> Fin 1 | Some v \<Rightarrow> v)\<rparr>)"

section \<open>State of the sampler\<close>

text \<open>
  The linear-algebra collaborator (\<^verbatim>\<open>scipy.linalg.inv\<close>, \<^verbatim>\<open>scipy.linalg.cholesky\<close>)
  is a parameter of the model; \<open>None\<close> is its failure.
\<close>

record la_kernel =
  la_inv :: "mat \<Rightarrow> mat option"
  la_cholesky :: "mat \<Rightarrow> mat option"

text \<open>
  The random numbers one iteration of the loop consumes: the standard-normal vector and
  the uniform number of each stage, and the inverse-Wishart sampler (applied to the
  degrees of freedom and the scale matrix). \<^verbatim>\<open>np.random.rand\<close> draws from \<open>[0, 1)\<close>.
\<close>

record draws =
  randn1 :: "real list"
  rand1 :: real
  randn2 :: "real list"
  rand2 :: real
  invwishart_rvs :: "fl \<Rightarrow> mat \<Rightarrow> mat option"

text \<open>
  The working set of the loop. \<open>cur_q\<close> and \<open>cur_err\<close> are the source's \<^verbatim>\<open>q\<close> and
  \<^verbatim>\<open>err\<close>. A residual matrix is kept transposed: its row \<open>i\<close> is the residual series
  of data set \<open>i\<close> (column \<open>i\<close> of the source's array).
\<close>

record state =
  cur_q :: vec
  cur_err :: mat
  cov_q :: mat
  cov_q_inv :: mat
  cov_err :: mat
  cov_err_inv :: mat
  qBar :: vec
  qCov :: mat
  R1 :: mat
  R2 :: mat
  chain_q :: mat
  last_cov_q :: mat
  chain_cov_err :: "mat list"

definition bind_err :: "error + 'a \<Rightarrow> ('a \<Rightarrow> error + 'b) \<Rightarrow> error + 'b" where
  "bind_err m f = (case m of Inl e \<Rightarrow> Inl e | Inr x \<Rightarrow> f x)"

definition or_raise :: "'a option \<Rightarrow> error \<Rightarrow> error + 'a" where
  "or_raise m e = (case m of None \<Rightarrow> Inl e | Some x \<Rightarrow> Inr x)"

text \<open>Python's \<^verbatim>\<open>a[-1]\<close>.\<close>

definition last_entry :: "'a list \<Rightarrow> error + 'a" where
  "last_entry xs = (if xs = [] then Inl IndexError else Inr (last xs))"

section \<open>Residuals and sums of squares\<close>

text \<open>The loop \<^verbatim>\<open>for i in np.arange(N): err[:,i] = model['errFun'][i](...)\<close>.\<close>

definition eval_err :: "'e model_data \<Rightarrow> nat \<Rightarrow> vec \<Rightarrow> mat" where
  "eval_err md N qv =
     map (\<lambda>i. (errFun md ! i) qv (xdata md ! i) (ydata md ! i) (extra md ! i)) [0..<N]"

text \<open>
  \<^verbatim>\<open>np.dot(err.T, err)\<close>: entry \<open>(i, j)\<close> is the inner product of the residual series of
  data sets \<open>i\<close> and \<open>j\<close>.
\<close>

definition gram :: "mat \<Rightarrow> mat" where
  "gram E = map (\<lambda>ci. map (\<lambda>cj. dotp ci cj) E) E"

text \<open>\<^verbatim>\<open>np.trace(np.dot(np.dot(err.T, err), cov_err_inv))\<close>.\<close>

definition sum_squares :: "mat \<Rightarrow> mat \<Rightarrow> fl" where
  "sum_squares E cinv = trace (mat_mul (gram E) cinv)"

text \<open>\<^verbatim>\<open>np.tile(float('inf'), (n, N))\<close>, transposed.\<close>

definition inf_err :: "nat \<Rightarrow> nat \<Rightarrow> mat" where
  "inf_err N n = replicate N (replicate n PInf)"

text \<open>\<^verbatim>\<open>np.dot(np.dot(d.T, C), d)[0][0]\<close> for a column vector \<open>d\<close>.\<close>

definition quad_form :: "vec \<Rightarrow> mat \<Rightarrow> fl" where
  "quad_form d C = dotp (vec_mat d C) d"

section \<open>Delayed rejection\<close>

text \<open>
  An elementwise comparison of two one-dimensional arrays (\<^verbatim>\<open>q.T[0,:] < lowerLimits\<close>).
  numpy compares entry by entry when the lengths agree, broadcasts an array of one entry
  over the other array, and raises \<^verbatim>\<open>ValueError\<close> for any other pair of lengths: that
  is \<open>None\<close> here.
\<close>

definition np_compare :: "(fl \<Rightarrow> fl \<Rightarrow> bool) \<Rightarrow> vec \<Rightarrow> vec \<Rightarrow> bool list option" where
  "np_compare f xs ys =
     (if length xs = length ys then Some (map (\<lambda>(x, y). f x y) (zip xs ys))
      else if length ys = 1 then Some (map (\<lambda>x. f x (hd ys)) xs)
      else if length xs = 1 then Some (map (\<lambda>y. f (hd xs) y) ys)
      else None)"

text \<open>\<^verbatim>\<open>any(...)\<close> of a comparison that did not raise.\<close>

definition any_cmp :: "(fl \<Rightarrow> fl \<Rightarrow> bool) \<Rightarrow> vec \<Rightarrow> vec \<Rightarrow> bool" where
  "any_cmp f xs ys = (case np_compare f xs ys of None \<Rightarrow> False | Some bs \<Rightarrow> list_ex (\<lambda>b. b) bs)"

text \<open>
  The test of lines 219 and 261,
  \<^verbatim>\<open>any(q.T[0,:] < lowerLimits) or any(q.T[0,:] > upperLimits)\<close>, and the condition under
  which evaluating it raises: the first comparison does not fit, or no component is below
  its lower limit and the second comparison (which \<^verbatim>\<open>or\<close> evaluates only then) does
  not fit.
\<close>

definition out_of_bounds :: "vec \<Rightarrow> vec \<Rightarrow> vec \<Rightarrow> bool" where
  "out_of_bounds qv lo hi = (any_cmp fl_lt qv lo \<or> any_cmp fl_gt qv hi)"

definition bounds_raise :: "vec \<Rightarrow> vec \<Rightarrow> vec \<Rightarrow> bool" where
  "bounds_raise qv lo hi =
     (np_compare fl_lt qv lo = None \<or>
      (\<not> any_cmp fl_lt qv lo \<and> np_compare fl_gt qv hi = None))"

record stage1 =
  err1 :: mat
  SS0 :: fl
  SS1 :: fl
  pi10 :: fl
  alpha10 :: fl

text \<open>Lines 219 to 245: the first-stage candidate \<open>q1\<close> is evaluated.\<close>

definition first_stage ::
  "'e model_data \<Rightarrow> nat \<Rightarrow> nat \<Rightarrow> mat \<Rightarrow> mat \<Rightarrow> vec \<Rightarrow> stage1" where
  "first_stage md N n cinv err0 q1 =
     (if out_of_bounds q1 (lowerLimits md) (upperLimits md)
      then \<lparr>err1 = inf_err N n, SS0 = sum_squares err0 cinv, SS1 = PInf, pi10 = Fin 0,
            alpha10 = py_min (Fin 1) (Fin 0)\<rparr>
      else
        let e1 = eval_err md N q1 in
        if list_ex (list_ex fl_isnan) e1
        then \<lparr>err1 = inf_err N n, SS0 = sum_squares err0 cinv, SS1 = PInf, pi10 = Fin 0,
              alpha10 = py_min (Fin 1) (Fin 0)\<rparr>
        else
          let s0 = sum_squares err0 cinv;
              s1 = sum_squares e1 cinv;
              p10 = fl_exp (fl_mul (Fin (- 0.5)) (fl_sub s1 s0))
          in \<lparr>err1 = e1, SS0 = s0, SS1 = s1, pi10 = p10, alpha10 = py_min (Fin 1) p10\<rparr>)"

text \<open>
  Lines 296 to 299: the acceptance probability of the second stage from \<open>pi20\<close>,
  \<open>J12\<close>, \<open>J10\<close>, \<open>alpha12\<close> and \<open>alpha10\<close>.
\<close>

definition alpha210_of :: "fl \<Rightarrow> fl \<Rightarrow> fl \<Rightarrow> fl \<Rightarrow> fl \<Rightarrow> fl" where
  "alpha210_of p20 j12 j10 a12 a10 =
     (if fl_eq a12 (Fin 1) then Fin 0
      else py_min (Fin 1)
        (fl_div (fl_mul (fl_div (fl_mul p20 j12) j10) (fl_sub (Fin 1) a12))
           (fl_sub (Fin 1) a10)))"

record stage2 =
  err2 :: mat
  alpha210 :: fl

text \<open>Lines 261 to 299: the second-stage candidate \<open>q2\<close> is evaluated.\<close>

definition second_stage ::
  "'e model_data \<Rightarrow> nat \<Rightarrow> nat \<Rightarrow> mat \<Rightarrow> mat \<Rightarrow> vec \<Rightarrow> vec \<Rightarrow> stage1 \<Rightarrow> vec \<Rightarrow> stage2" where
  "second_stage md N n cinv qinv q0 q1 s q2 =
     (if out_of_bounds q2 (lowerLimits md) (upperLimits md)
      then \<lparr>err2 = inf_err N n, alpha210 = Fin 0\<rparr>
      else
        let e2 = eval_err md N q2 in
        if list_ex (list_ex fl_isnan) e2
        then \<lparr>err2 = inf_err N n, alpha210 = Fin 0\<rparr>
        else
          let s2 = sum_squares e2 cinv;
              p20 = fl_exp (fl_mul (Fin (- 0.5)) (fl_sub s2 (SS0 s)));
              j12 = fl_exp (fl_mul (Fin (- 0.5)) (quad_form (vec_sub q1 q2) qinv));
              j10 = fl_exp (fl_mul (Fin (- 0.5)) (quad_form (vec_sub q1 q0) qinv));
              p12 = fl_exp (fl_mul (Fin (- 0.5)) (fl_sub (SS1 s) s2));
              a12 = py_min (Fin 1) p12
          in \<lparr>err2 = e2, alpha210 = alpha210_of p20 j12 j10 a12 (alpha10 s)\<rparr>)"

datatype outcome = AcceptStage1 | AcceptStage2 | RejectBoth

text \<open>
  What one pass through lines 210 to 309 leaves: the new \<^verbatim>\<open>q\<close> and \<^verbatim>\<open>err\<close>, the
  candidates that were proposed and their evaluations (the second ones only when the
  first candidate was rejected), and the branch that was taken.
\<close>

record dr_result =
  dr_q :: vec
  dr_err :: mat
  dr_q1 :: vec
  dr_stage1 :: stage1
  dr_q2 :: "vec option"
  dr_stage2 :: "stage2 option"
  dr_outcome :: outcome

definition delayed_rejection ::
  "'e model_data \<Rightarrow> nat \<Rightarrow> nat \<Rightarrow> draws \<Rightarrow> state \<Rightarrow> dr_result" where
  "delayed_rejection md N n d st =
     (let q0 = cur_q st;
          err0 = cur_err st;
          q1 = vec_add q0 (mat_vec (transpose (R1 st)) (map Fin (randn1 d)));
          s1 = first_stage md N n (cov_err_inv st) err0 q1
      in if fl_gt (alpha10 s1) (Fin (rand1 d))
         then \<lparr>dr_q = q1, dr_err = err1 s1, dr_q1 = q1, dr_stage1 = s1, dr_q2 = None,
               dr_stage2 = None, dr_outcome = AcceptStage1\<rparr>
         else
           let q2 = vec_add q0 (mat_vec (transpose (R2 st)) (map Fin (randn2 d)));
               s2 = second_stage md N n (cov_err_inv st) (cov_q_inv st) q0 q1 s1 q2
           in if fl_gt (alpha210 s2) (Fin (rand2 d))
              then \<lparr>dr_q = q2, dr_err = err2 s2, dr_q1 = q1, dr_stage1 = s1,
                    dr_q2 = Some q2, dr_stage2 = Some s2, dr_outcome = AcceptStage2\<rparr>
              else \<lparr>dr_q = cur_q st, dr_err = cur_err st, dr_q1 = q1, dr_stage1 = s1,
                    dr_q2 = Some q2, dr_stage2 = Some s2, dr_outcome = RejectBoth\<rparr>)"

section \<open>Adaptive Metropolis\<close>

text \<open>The adaptation interval and the adaptation scale \<^verbatim>\<open>2.38/np.sqrt(p)\<close>.\<close>

definition ko :: nat where
  "ko = 100"

definition sp :: "nat \<Rightarrow> fl" where
  "sp p = fl_div (Fin 2.38) (Fin (sqrt (real p)))"

text \<open>
  Lines 123 to 126 and 345 to 348: the inverse of the proposal covariance; lines 133 to
  136 and 320 to 323: the inverse of the residual covariance.
\<close>

definition invert :: "la_kernel \<Rightarrow> nat \<Rightarrow> mat \<Rightarrow> error + mat" where
  "invert la sz A = (if sz = 1 then Inr (mat_recip A) else or_raise (la_inv la A) LinAlgError)"

text \<open>Lines 337 and 340: the recursive mean and covariance.\<close>

definition qBar_next :: "nat \<Rightarrow> vec \<Rightarrow> vec \<Rightarrow> vec" where
  "qBar_next k qBarOld qv =
     vec_div (vec_add (vec_scale (Fin (real k)) qBarOld) qv) (Fin (real k + 1))"

definition qCov_next :: "nat \<Rightarrow> mat \<Rightarrow> vec \<Rightarrow> vec \<Rightarrow> vec \<Rightarrow> mat" where
  "qCov_next k qCovOld qBarOld qBarNew qv =
     mat_add
       (mat_scale (fl_div (Fin (real k - 1)) (Fin (real k))) qCovOld)
       (mat_scale (fl_div (Fin 1) (Fin (real k)))
          (mat_add
             (mat_sub (mat_scale (Fin (real k)) (outer qBarOld qBarOld))
                (mat_scale (Fin (real k + 1)) (outer qBarNew qBarNew)))
             (outer qv qv)))"

text \<open>Lines 343 to 351: the proposal covariance and the step matrices are renewed.\<close>

definition commit_cov_q :: "la_kernel \<Rightarrow> nat \<Rightarrow> state \<Rightarrow> error + state" where
  "commit_cov_q la p st =
     (let c = qCov st in
      bind_err (invert la p c) (\<lambda>cinv.
      bind_err (or_raise (la_cholesky la c) LinAlgError) (\<lambda>randomWalk.
      Inr (st\<lparr>cov_q := c, cov_q_inv := cinv,
              R1 := mat_times randomWalk (sp p),
              R2 := mat_div (mat_times randomWalk (sp p)) (Fin 5)\<rparr>))))"

text \<open>Lines 325 to 351, \<open>qv\<close> being the row just recorded.\<close>

definition adapt :: "la_kernel \<Rightarrow> nat \<Rightarrow> nat \<Rightarrow> nat \<Rightarrow> vec \<Rightarrow> state \<Rightarrow> error + state" where
  "adapt la p Mo k qv st =
     (if k = ko - 1
      then Inr (st\<lparr>qBar := col_means (take ko (chain_q st)),
                   qCov := np_cov (take ko (chain_q st))\<rparr>)
      else if ko \<le> k
      then
        let qBarOld = qBar st;
            qBarNew = qBar_next k qBarOld qv;
            st' = st\<lparr>qBar := qBarNew,
                     qCov := qCov_next k (qCov st) qBarOld qBarNew qv\<rparr>
        in if (k + Mo) mod ko = 0 then commit_cov_q la p st' else Inr st'
      else Inr st)"

text \<open>
  Lines 313 to 351: the chain is recorded (an index outside the chain raises
  \<^verbatim>\<open>IndexError\<close>), the residual covariance is drawn anew and the proposal is adapted.
\<close>

definition adaptive_metropolis ::
  "la_kernel \<Rightarrow> nat \<Rightarrow> nat \<Rightarrow> nat \<Rightarrow> nat \<Rightarrow> prior \<Rightarrow> nat \<Rightarrow> draws \<Rightarrow> vec \<Rightarrow> mat \<Rightarrow> state
     \<Rightarrow> error + state" where
  "adaptive_metropolis la N n p Mo pri k d qv ev st =
     (if length (chain_q st) \<le> k \<or> length (chain_cov_err st) \<le> k then Inl IndexError
      else
        let st1 = st\<lparr>cur_q := qv, cur_err := ev,
                     chain_q := (chain_q st)[k := qv],
                     last_cov_q := cov_q st,
                     chain_cov_err := (chain_cov_err st)[k := cov_err st]\<rparr>
        in
        bind_err (or_raise (invwishart_rvs d (fl_add (nu_s pri) (Fin (real n)))
                    (mat_add (psi_s pri) (gram ev))) LinAlgError) (\<lambda>ce.
        bind_err (invert la N ce) (\<lambda>ceinv.
        adapt la p Mo k qv (st1\<lparr>cov_err := ce, cov_err_inv := ceinv\<rparr>))))"

text \<open>
  The bounds test of a candidate raises \<^verbatim>\<open>ValueError\<close> when the limits do not fit the
  parameter vector. That happens at the first candidate, or at the second one when the
  first was rejected; \<open>delayed_rejection\<close> is what the code computes when it does not
  happen.
\<close>

definition broadcast_error :: "'e model_data \<Rightarrow> nat \<Rightarrow> nat \<Rightarrow> draws \<Rightarrow> state \<Rightarrow> bool" where
  "broadcast_error md N n d st =
     (let r = delayed_rejection md N n d st in
      bounds_raise (dr_q1 r) (lowerLimits md) (upperLimits md) \<or>
      (case dr_q2 r of
         None \<Rightarrow> False
       | Some q2 \<Rightarrow> bounds_raise q2 (lowerLimits md) (upperLimits md)))"

text \<open>One iteration of the loop at line 194.\<close>

definition dram_iteration ::
  "la_kernel \<Rightarrow> 'e model_data \<Rightarrow> nat \<Rightarrow> nat \<Rightarrow> nat \<Rightarrow> nat \<Rightarrow> prior \<Rightarrow> nat \<Rightarrow> draws \<Rightarrow> state
     \<Rightarrow> error + state" where
  "dram_iteration la md N n p Mo pri k d st =
     (if broadcast_error md N n d st
      then Inl (ValueError ''operands could not be broadcast together'')
      else
        let r = delayed_rejection md N n d st
        in adaptive_metropolis la N n p Mo pri k d (dr_q r) (dr_err r) st)"

text \<open>
  The loop \<^verbatim>\<open>for k in np.arange(Mo, M, 1)\<close>: \<open>c\<close> counts the iterations that remain,
  \<open>rng k\<close> are the random numbers of iteration \<open>k\<close>.
\<close>

fun dram_loop ::
  "la_kernel \<Rightarrow> 'e model_data \<Rightarrow> nat \<Rightarrow> nat \<Rightarrow> nat \<Rightarrow> nat \<Rightarrow> prior \<Rightarrow> (nat \<Rightarrow> draws) \<Rightarrow> nat \<Rightarrow> nat
     \<Rightarrow> state \<Rightarrow> error + state" where
  "dram_loop la md N n p Mo pri rng 0 k st = Inr st"
| "dram_loop la md N n p Mo pri rng (Suc c) k st =
     bind_err (dram_iteration la md N n p Mo pri k (rng k) st)
       (dram_loop la md N n p Mo pri rng c (Suc k))"

section \<open>Initialisation\<close>

text \<open>Line 120: the diagonal of the first proposal covariance.\<close>

definition init_var :: "fl \<Rightarrow> fl" where
  "init_var x =
     fl_add
       (fl_mul (fl_of_bool (\<not> fl_eq x (Fin 0)))
          (fl_mul (fl_mul (Fin 0.05) x) (fl_mul (Fin 0.05) x)))
       (fl_mul (fl_of_bool (fl_eq x (Fin 0))) (Fin 1))"

text \<open>
  Lines 174 to 178 and 187 to 191: the chains, filled with zeros but for the first row (a
  fresh run) or the rows of the earlier run. Row 0 of an empty chain does not exist, and
  rows that do not fit the slice they are assigned to raise \<^verbatim>\<open>ValueError\<close>.
\<close>

definition init_chain :: "nat \<Rightarrow> nat \<Rightarrow> 'a \<Rightarrow> 'a \<Rightarrow> 'a list option \<Rightarrow> error + 'a list" where
  "init_chain Mo M zero first prev =
     (if Mo = 1
      then (if M = 0 then Inl IndexError else Inr ((replicate M zero)[0 := first]))
      else
        bind_err (or_raise prev NotAnArray) (\<lambda>rows.
        if length rows = min Mo M then Inr (rows @ replicate (M - Mo) zero)
        else if length rows = 1 then Inr (replicate (min Mo M) (hd rows) @ replicate (M - Mo) zero)
        else Inl (ValueError ''could not broadcast input array'')))"

text \<open>Lines 94 to 191.\<close>

definition init_state ::
  "la_kernel \<Rightarrow> 'e model_data \<Rightarrow> dram_params \<Rightarrow> nat \<Rightarrow> nat \<Rightarrow> nat \<Rightarrow> error + state" where
  "init_state la md dp N n p =
     (let Mo = numDRAMIterationsDone dp; M = numDRAMIterations dp;
          pr = previousResults dp
      in
      bind_err (if Mo = 1 then Inr (param_values md)
                else bind_err (or_raise (prev_chain_q pr) NotAnArray) last_entry) (\<lambda>qv.
      let ev = eval_err md N qv in
      bind_err (if Mo = 1 then Inr (diag (map init_var qv))
                else or_raise (prev_last_cov_q pr) NotAnArray) (\<lambda>cq.
      bind_err (invert la p cq) (\<lambda>cqinv.
      bind_err (if Mo = 1 then Inr (gram ev)
                else bind_err (or_raise (prev_chain_cov_err pr) NotAnArray) last_entry) (\<lambda>ce.
      bind_err (invert la N ce) (\<lambda>ceinv.
      bind_err (if Mo = 1 then Inr qv
                else bind_err (or_raise (prev_chain_q pr) NotAnArray)
                       (\<lambda>c. Inr (col_means c))) (\<lambda>qb.
      bind_err (or_raise (la_cholesky la cq) LinAlgError) (\<lambda>randomWalk.
      bind_err (init_chain Mo M (replicate p (Fin 0)) qv (prev_chain_q pr)) (\<lambda>cqs.
      bind_err (init_chain Mo M (zeros N N) ce (prev_chain_cov_err pr)) (\<lambda>cces.
      Inr \<lparr>cur_q = qv, cur_err = ev, cov_q = cq, cov_q_inv = cqinv, cov_err = ce,
           cov_err_inv = ceinv, qBar = qb, qCov = cq,
           R1 = mat_div randomWalk (Fin 1), R2 = mat_div randomWalk (Fin 5),
           chain_q = cqs, last_cov_q = cq, chain_cov_err = cces\<rparr>))))))))))"

section \<open>The chain sampler\<close>

record chains =
  res_prior :: prior
  res_chain_q :: mat
  res_last_cov_q :: mat
  res_chain_cov_err :: "mat list"

text \<open>
  \<^verbatim>\<open>getDRAMMIMOChains\<close>. Printing and the checkpoint files are not modelled: they
  change nothing the function computes with.
\<close>

definition getDRAMMIMOChains ::
  "la_kernel \<Rightarrow> (nat \<Rightarrow> draws) \<Rightarrow> 'e model_data \<Rightarrow> dram_params \<Rightarrow> error + chains" where
  "getDRAMMIMOChains la rng md dp =
     bind_err (validate md dp) (\<lambda>(N, n, p).
     let Mo = numDRAMIterationsDone dp; M = numDRAMIterations dp;
         pri = init_prior N (previousResults dp)
     in
     bind_err (init_state la md dp N n p) (\<lambda>st0.
     bind_err (dram_loop la md N n p Mo pri rng (M - Mo) Mo st0) (\<lambda>st.
     Inr \<lparr>res_prior = pri, res_chain_q = chain_q st, res_last_cov_q = last_cov_q st,
          res_chain_cov_err = chain_cov_err st\<rparr>)))"

section \<open>Posterior densities\<close>

text \<open>
  \<^verbatim>\<open>getDRAMMIMODensities\<close> works on a finished chain; its entries are modelled as real
  numbers, and the chain is given by its columns (\<^verbatim>\<open>qChain[:,i]\<close>), each with
  \<^verbatim>\<open>numIterations\<close> entries.
\<close>

text \<open>Python's \<^verbatim>\<open>a[i]\<close>: a negative index counts from the end.\<close>

definition py_get :: "'a list \<Rightarrow> int \<Rightarrow> error + 'a" where
  "py_get xs i =
     (if 0 \<le> i \<and> i < int (length xs) then Inr (xs ! nat i)
      else if i < 0 \<and> - int (length xs) \<le> i then Inr (xs ! nat (int (length xs) + i))
      else Inl IndexError)"

definition mean_real :: "real list \<Rightarrow> real" where
  "mean_real xs = sum_list xs / real (length xs)"

text \<open>\<^verbatim>\<open>np.std(x)\<close> with numpy's default \<^verbatim>\<open>ddof=0\<close>: the divisor is the number of entries.\<close>

definition np_std :: "real list \<Rightarrow> real" where
  "np_std xs = sqrt (sum_list (map (\<lambda>x. (x - mean_real xs)\<^sup>2) xs) / real (length xs))"

text \<open>Lines 384 to 396: the bandwidth of the kernel for one column.\<close>

definition bandwidth :: "real list \<Rightarrow> error + real" where
  "bandwidth col =
     (let numIterations = length col;
          chainSorted = sort col;
          i1 = \<lfloor>(real numIterations + 1) / 4\<rfloor>;
          i3 = \<lfloor>(real numIterations + 1) / 4 * 3\<rfloor>;
          f1 = (real numIterations + 1) / 4 - real_of_int i1;
          f3 = (real numIterations + 1) / 4 * 3 - real_of_int i3
      in
      bind_err (py_get chainSorted (i1 - 1)) (\<lambda>a1.
      bind_err (py_get chainSorted i1) (\<lambda>b1.
      bind_err (py_get chainSorted (i3 - 1)) (\<lambda>a3.
      bind_err (py_get chainSorted i3) (\<lambda>b3.
      let q1 = (1 - f1) * a1 + f1 * b1;
          q3 = (1 - f3) * a3 + f3 * b3;
          iRange = q3 - q1
      in Inr (if iRange \<le> 0
              then 1.06 * np_std col * real numIterations powr (- 1 / 5)
              else 1.06 * min (np_std col) (iRange / 1.34) *
                   real numIterations powr (- 1 / 5)))))))"

text \<open>\<^verbatim>\<open>np.linspace(a, b, 100)\<close>.\<close>

definition linspace100 :: "real \<Rightarrow> real \<Rightarrow> real list" where
  "linspace100 a b = map (\<lambda>j. a + real j * ((b - a) / 99)) [0..<100]"

text \<open>
  Lines 375 to 400 for one column: the grid and the density on it. The minimum of an
  empty column raises \<^verbatim>\<open>ValueError\<close>.
\<close>

definition density_column :: "real list \<Rightarrow> error + (real list \<times> real list)" where
  "density_column col =
     (if col = [] then Inl (ValueError ''zero-size array to reduction operation'')
      else
        let qMin = Min (set col); qMax = Max (set col); qRange = qMax - qMin;
            vals = linspace100 (qMin - 0.08 * qRange) (qMax + 0.08 * qRange)
        in
        bind_err (bandwidth col) (\<lambda>s.
        Inr (vals,
             map (\<lambda>v. 1 / real (length col) *
                       sum_list (map (\<lambda>x. exp (- 0.5 * ((v - x) / s)\<^sup>2) / sqrt (2 * pi)) col) / s)
               vals)))"

fun getDRAMMIMODensities :: "real list list \<Rightarrow> error + (real list \<times> real list) list" where
  "getDRAMMIMODensities [] = Inr []"
| "getDRAMMIMODensities (col # cols) =
     bind_err (density_column col) (\<lambda>r.
     bind_err (getDRAMMIMODensities cols) (\<lambda>rs. Inr (r # rs)))"

subsection \<open>The bandwidth as the specification writes it\<close>

text \<open>
  The \<open>j\<close>-th order statistic (\<open>j\<close> counted from 1), the value at a fractional rank by
  linear interpolation between the two order statistics around it, the interquartile range
  between the ranks \<open>(n+1)/4\<close> and \<open>3(n+1)/4\<close>, and Silverman's rule with a standard
  deviation \<open>sd\<close>. The standard deviation of a sample has the divisor \<open>n - 1\<close>.
\<close>

definition order_stat :: "real list \<Rightarrow> nat \<Rightarrow> real" where
  "order_stat xs j = sort xs ! (j - 1)"

definition interp_rank :: "real list \<Rightarrow> real \<Rightarrow> real" where
  "interp_rank xs r =
     (let j = nat \<lfloor>r\<rfloor>; f = r - real j
      in order_stat xs j + f * (order_stat xs (j + 1) - order_stat xs j))"

definition spec_iqr :: "real list \<Rightarrow> real" where
  "spec_iqr xs =
     interp_rank xs (3 * (real (length xs) + 1) / 4) - interp_rank xs ((real (length xs) + 1) / 4)"

definition spec_bandwidth :: "(real list \<Rightarrow> real) \<Rightarrow> real list \<Rightarrow> real" where
  "spec_bandwidth sd xs =
     (if 0 < spec_iqr xs
      then 1.06 * min (sd xs) (spec_iqr xs / 1.34) * real (length xs) powr (- 1 / 5)
      else 1.06 * sd xs * real (length xs) powr (- 1 / 5))"

definition sample_sd :: "real list \<Rightarrow> real" where
  "sample_sd xs = sqrt (sum_list (map (\<lambda>x. (x - mean_real xs)\<^sup>2) xs) / (real (length xs) - 1))"

section \<open>Credible and prediction intervals\<close>

text \<open>
  The random numbers of \<^verbatim>\<open>getDRAMMIMOIntervals\<close>: \<open>unif i\<close> is entry \<open>i\<close> of
  \<^verbatim>\<open>np.random.rand(nSample)\<close>, a number of \<open>[0, 1)\<close>; \<open>mvn ii\<close> is the multivariate-normal
  sampler as it is called for sample \<open>ii\<close>, applied to the mean and the covariance, and
  returns as many entries as the mean has.
\<close>

record interval_draws =
  unif :: "nat \<Rightarrow> real"
  mvn :: "nat \<Rightarrow> vec \<Rightarrow> mat \<Rightarrow> vec"

text \<open>Lines 430 to 433: the indices of the chain rows to use.\<close>

definition iSample :: "nat \<Rightarrow> nat \<Rightarrow> interval_draws \<Rightarrow> int list" where
  "iSample nSample m dr =
     (if nSample = m then map int [0..<m]
      else map (\<lambda>i. \<lfloor>unif dr i * real m\<rfloor>) [0..<nSample])"

text \<open>
  An array assigned to a row of \<open>n\<close> entries (\<^verbatim>\<open>ySave[i,iiSample,:] = y.T\<close>): it has \<open>n\<close>
  entries, or one entry that is repeated; anything else raises \<^verbatim>\<open>ValueError\<close>.
\<close>

definition fit_row :: "nat \<Rightarrow> vec \<Rightarrow> error + vec" where
  "fit_row n y =
     (if length y = n then Inr y
      else if length y = 1 then Inr (replicate n (hd y))
      else Inl (ValueError ''could not broadcast input array''))"

text \<open>
  Lines 442 to 444 for data set \<open>i\<close> (one of \<open>0, ..., N - 1\<close>, so that \<^verbatim>\<open>xData[i]\<close> exists):
  the response \<open>y\<close> at the parameters \<open>qi\<close> and the prediction sample
  \<open>y.T + randError[i,0]\<close>.
\<close>

definition sample_dataset ::
  "'e model_data \<Rightarrow> nat \<Rightarrow> vec \<Rightarrow> vec \<Rightarrow> nat \<Rightarrow> error + (vec \<times> vec)" where
  "sample_dataset md n qi randError i =
     bind_err (py_get (model_fun md) (int i)) (\<lambda>f.
     bind_err (py_get (extra md) (int i)) (\<lambda>e.
     let y = f qi (xdata md ! i) e in
     bind_err (fit_row n y) (\<lambda>yrow.
     bind_err (py_get randError (int i)) (\<lambda>r.
     bind_err (fit_row n (map (\<lambda>v. fl_add v r) y)) (\<lambda>orow.
     Inr (yrow, orow))))))"

fun sample_datasets ::
  "'e model_data \<Rightarrow> nat \<Rightarrow> vec \<Rightarrow> vec \<Rightarrow> nat list \<Rightarrow> error + (vec \<times> vec) list" where
  "sample_datasets md n qi randError [] = Inr []"
| "sample_datasets md n qi randError (i # is) =
     bind_err (sample_dataset md n qi randError i) (\<lambda>r.
     bind_err (sample_datasets md n qi randError is) (\<lambda>rs. Inr (r # rs)))"

text \<open>
  Lines 439 to 444 for sample \<open>iiSample\<close>: the chain row and the residual covariance at
  the selected index, one draw of the noise vector, and the samples of every data set.
\<close>

definition sample_one ::
  "'e model_data \<Rightarrow> nat \<Rightarrow> nat \<Rightarrow> mat \<Rightarrow> mat list \<Rightarrow> interval_draws \<Rightarrow> int list \<Rightarrow> nat
     \<Rightarrow> error + (vec \<times> vec) list" where
  "sample_one md N n chain chain_ce dr idx iiSample =
     bind_err (py_get idx (int iiSample)) (\<lambda>ix.
     bind_err (py_get chain ix) (\<lambda>qi.
     bind_err (py_get chain_ce ix) (\<lambda>C.
     let randError = mvn dr iiSample (replicate N (Fin 0)) C
     in sample_datasets md n qi randError [0..<N])))"

fun sample_all ::
  "'e model_data \<Rightarrow> nat \<Rightarrow> nat \<Rightarrow> mat \<Rightarrow> mat list \<Rightarrow> interval_draws \<Rightarrow> int list \<Rightarrow> nat list
     \<Rightarrow> error + (vec \<times> vec) list list" where
  "sample_all md N n chain chain_ce dr idx [] = Inr []"
| "sample_all md N n chain chain_ce dr idx (ii # iis) =
     bind_err (sample_one md N n chain chain_ce dr idx ii) (\<lambda>r.
     bind_err (sample_all md N n chain chain_ce dr idx iis) (\<lambda>rs. Inr (r # rs)))"

record interval_samples =
  ySave :: "vec list list"
  oSave :: "vec list list"

text \<open>
  Lines 423 to 444 of \<^verbatim>\<open>getDRAMMIMOIntervals\<close>: \<open>ySave\<close> and \<open>oSave\<close>, indexed by data
  set, sample and output location. Without a data set \<^verbatim>\<open>xData[0]\<close> raises
  \<^verbatim>\<open>IndexError\<close>. The limits of lines 446 to 454 are quantiles of these samples.
\<close>

definition getDRAMMIMOIntervals_samples ::
  "'e model_data \<Rightarrow> mat \<Rightarrow> mat list \<Rightarrow> nat \<Rightarrow> interval_draws \<Rightarrow> error + interval_samples" where
  "getDRAMMIMOIntervals_samples md chain chain_ce nSample dr =
     (let m = length chain; N = length (xdata md) in
      bind_err (py_get (xdata md) 0) (\<lambda>x0.
      let n = length x0; idx = iSample nSample m dr in
      bind_err (sample_all md N n chain chain_ce dr idx [0..<nSample]) (\<lambda>rs.
      Inr \<lparr>ySave = map (\<lambda>i. map (\<lambda>r. fst (r ! i)) rs) [0..<N],
           oSave = map (\<lambda>i. map (\<lambda>r. snd (r ! i)) rs) [0..<N]\<rparr>)))"

section \<open>The recursions as the specification writes them\<close>

text \<open>
  Entry \<open>i\<close> of \<open>qBar_k = (k qBar_{k-1} + q_k) / (k + 1)\<close> and entry \<open>(i, j)\<close> of
  \<open>qCov_k = ((k-1)/k) qCov_{k-1} + (1/k) (k qBar_{k-1} qBar_{k-1}^T - (k+1) qBar_k qBar_k^T
  + q_k q_k^T)\<close>, written from the specification and compared with the code below.
\<close>

definition spec_qBar :: "nat \<Rightarrow> vec \<Rightarrow> vec \<Rightarrow> nat \<Rightarrow> fl" where
  "spec_qBar k qBarPrev qk i =
     fl_div (fl_add (fl_mul (Fin (real k)) (qBarPrev ! i)) (qk ! i)) (Fin (real k + 1))"

definition spec_qCov :: "nat \<Rightarrow> mat \<Rightarrow> vec \<Rightarrow> vec \<Rightarrow> vec \<Rightarrow> nat \<Rightarrow> nat \<Rightarrow> fl" where
  "spec_qCov k qCovPrev qBarPrev qBarNew qk i j =
     fl_add
       (fl_mul (fl_div (Fin (real k - 1)) (Fin (real k))) (qCovPrev ! i ! j))
       (fl_mul (fl_div (Fin 1) (Fin (real k)))
          (fl_add
             (fl_sub (fl_mul (Fin (real k)) (fl_mul (qBarPrev ! i) (qBarPrev ! j)))
                (fl_mul (Fin (real k + 1)) (fl_mul (qBarNew ! i) (qBarNew ! j))))
             (fl_mul (qk ! i) (qk ! j))))"

section \<open>A small instance\<close>

text \<open>
  One data set with one point and one parameter: the model response is the parameter
  itself. The factorisation of a 1-by-1 matrix is its square root. The inverse-Wishart
  sampler of the instance returns its scale matrix.
\<close>

definition ex_chol :: "mat \<Rightarrow> mat option" where
  "ex_chol A =
     (case A of [[Fin x]] \<Rightarrow> if 0 < x then Some [[Fin (sqrt x)]] else None | _ \<Rightarrow> None)"

definition ex_la :: la_kernel where
  "ex_la = \<lparr>la_inv = (\<lambda>A. None), la_cholesky = ex_chol\<rparr>"

definition ex_md :: "unit model_data" where
  "ex_md =
     \<lparr>xdata = [[Fin 0]], ydata = [[Fin 19]],
      model_fun = [\<lambda>qv x e. [hd qv]],
      errFun = [\<lambda>qv x y e. [fl_sub (hd qv) (hd y)]],
      extra = [()], param_values = [Fin 20],
      lowerLimits = [Fin 0], upperLimits = [Fin 40]\<rparr>"

definition ex_none :: previous_results where
  "ex_none =
     \<lparr>prior_psi_s = None, prior_nu_s = None, prev_chain_q = None,
      prev_last_cov_q = None, prev_chain_cov_err = None\<rparr>"

text \<open>A fresh run of \<open>M\<close> iterations in total.\<close>

definition ex_dp :: "nat \<Rightarrow> previous_results \<Rightarrow> dram_params" where
  "ex_dp M pr = \<lparr>numDRAMIterationsDone = 1, numDRAMIterations = M, previousResults = pr\<rparr>"

text \<open>No data set at all, and a run that resumes after two iterations with three rows.\<close>

definition ex_empty :: "unit model_data" where
  "ex_empty =
     \<lparr>xdata = [], ydata = [], model_fun = [], errFun = [], extra = [],
      param_values = [Fin 20], lowerLimits = [Fin 0], upperLimits = [Fin 40]\<rparr>"

definition ex_resume :: dram_params where
  "ex_resume =
     \<lparr>numDRAMIterationsDone = 2, numDRAMIterations = 5,
      previousResults = ex_none\<lparr>prev_chain_q := Some [[Fin 20], [Fin 20], [Fin 20]]\<rparr>\<rparr>"

text \<open>The state \<open>init_state\<close> makes of the instance, with a chain of \<open>M\<close> rows.\<close>

definition ex_state :: "nat \<Rightarrow> state" where
  "ex_state M =
     \<lparr>cur_q = [Fin 20], cur_err = [[Fin 1]], cov_q = [[Fin 1]], cov_q_inv = [[Fin 1]],
      cov_err = [[Fin 1]], cov_err_inv = [[Fin 1]], qBar = [Fin 20], qCov = [[Fin 1]],
      R1 = [[Fin 1]], R2 = [[Fin (1 / 5)]],
      chain_q = (replicate M [Fin 0])[0 := [Fin 20]], last_cov_q = [[Fin 1]],
      chain_cov_err = (replicate M [[Fin 0]])[0 := [[Fin 1]]]\<rparr>"

text \<open>Draws with the standard-normal numbers \<open>z1\<close> and \<open>z2\<close>; both uniform numbers are 1/2.\<close>

definition ex_draws :: "real \<Rightarrow> real \<Rightarrow> draws" where
  "ex_draws z1 z2 =
     \<lparr>randn1 = [z1], rand1 = 1 / 2, randn2 = [z2], rand2 = 1 / 2,
      invwishart_rvs = (\<lambda>df S. Some S)\<rparr>"

text \<open>The prior of a fresh run of the instance.\<close>

definition ex_prior :: prior where
  "ex_prior = \<lparr>psi_s = [[Fin 0]], nu_s = Fin 0\<rparr>"

text \<open>Earlier results that carry a prior: the scale matrix only, and both hyperparameters.\<close>

definition ex_psi_only :: previous_results where
  "ex_psi_only = ex_none\<lparr>prior_psi_s := Some [[Fin 3]]\<rparr>"

definition ex_psi_nu :: previous_results where
  "ex_psi_nu = ex_none\<lparr>prior_psi_s := Some [[Fin 3]], prior_nu_s := Some (Fin 7)\<rparr>"

text \<open>
  Two data sets with two points each and the response \<open>a x\<close>; a chain of one row; draws
  whose uniform numbers are all 0 and whose noise vector is \<open>(10, 20)\<close>.
\<close>

definition ex_md2 :: "unit model_data" where
  "ex_md2 =
     \<lparr>xdata = [[Fin 0, Fin 1], [Fin 0, Fin 1]], ydata = [[Fin 0, Fin 2], [Fin 0, Fin 2]],
      model_fun = [\<lambda>qv x e. map (fl_mul (hd qv)) x, \<lambda>qv x e. map (fl_mul (hd qv)) x],
      errFun = [\<lambda>qv x y e. map (\<lambda>(u, v). fl_sub (fl_mul (hd qv) u) v) (zip x y),
                \<lambda>qv x y e. map (\<lambda>(u, v). fl_sub (fl_mul (hd qv) u) v) (zip x y)],
      extra = [(), ()], param_values = [Fin 2],
      lowerLimits = [NInf], upperLimits = [PInf]\<rparr>"

definition ex_idraws :: interval_draws where
  "ex_idraws = \<lparr>unif = (\<lambda>i. 0), mvn = (\<lambda>ii mu C. [Fin 10, Fin 20])\<rparr>"

section \<open>Auxiliary facts\<close>

lemma bind_err_Inr: "bind_err m f = Inr y \<longleftrightarrow> (\<exists>x. m = Inr x \<and> f x = Inr y)"
  by (cases m) (simp_all add: bind_err_def)

lemma or_raise_Inr: "or_raise m e = Inr x \<longleftrightarrow> m = Some x"
  by (cases m) (simp_all add: or_raise_def)

lemma validate_N: "validate md dp = Inr (N, n, p) \<Longrightarrow> N = length (xdata md)"
  by (auto simp: validate_def Let_def numDataSets_def split: if_splits option.splits)

lemmas ex_defs = ex_chol_def ex_la_def ex_md_def ex_none_def ex_dp_def ex_draws_def ex_state_def
  ex_empty_def ex_resume_def

lemmas la_defs = fl_sum_def dotp_def mat_vec_def vec_mat_def mat_mul_def vec_add_def vec_sub_def
  vec_scale_def vec_div_def mat_add_def mat_sub_def mat_scale_def mat_times_def mat_div_def
  mat_recip_def outer_def trace_def zeros_def diag_def mean_def col_means_def np_cov_def
  fl_sub_def fl_gt_def py_min_def fl_of_bool_def inf_of_sign_def

lemmas dr_defs = delayed_rejection_def first_stage_def second_stage_def out_of_bounds_def
  np_compare_def any_cmp_def bounds_raise_def broadcast_error_def
  eval_err_def gram_def sum_squares_def inf_err_def quad_form_def alpha210_of_def Let_def

lemma ex_dr_both_out:
  "delayed_rejection ex_md 1 1 (ex_draws 30 (- 200)) (ex_state 2) =
     \<lparr>dr_q = [Fin 20], dr_err = [[Fin 1]], dr_q1 = [Fin 50],
      dr_stage1 = \<lparr>err1 = [[PInf]], SS0 = Fin 1, SS1 = PInf, pi10 = Fin 0, alpha10 = Fin 0\<rparr>,
      dr_q2 = Some [Fin (- 20)],
      dr_stage2 = Some \<lparr>err2 = [[PInf]], alpha210 = Fin 0\<rparr>,
      dr_outcome = RejectBoth\<rparr>"
  by (simp add: dr_defs ex_defs la_defs)

lemma ex_dr_accept1:
  "delayed_rejection ex_md 1 1 (ex_draws 0 0) (ex_state 2) =
     \<lparr>dr_q = [Fin 20], dr_err = [[Fin 1]], dr_q1 = [Fin 20],
      dr_stage1 = \<lparr>err1 = [[Fin 1]], SS0 = Fin 1, SS1 = Fin 1, pi10 = Fin 1, alpha10 = Fin 1\<rparr>,
      dr_q2 = None, dr_stage2 = None, dr_outcome = AcceptStage1\<rparr>"
  by (simp add: dr_defs ex_defs la_defs)

lemma ex_dr_accept2:
  "delayed_rejection ex_md 1 1 (ex_draws 21 5) (ex_state 2) =
     \<lparr>dr_q = [Fin 21], dr_err = [[Fin 2]], dr_q1 = [Fin 41],
      dr_stage1 = \<lparr>err1 = [[PInf]], SS0 = Fin 1, SS1 = PInf, pi10 = Fin 0, alpha10 = Fin 0\<rparr>,
      dr_q2 = Some [Fin 21],
      dr_stage2 = Some \<lparr>err2 = [[Fin 2]], alpha210 = Fin 1\<rparr>,
      dr_outcome = AcceptStage2\<rparr>"
  by (simp add: dr_defs ex_defs la_defs mult_exp_exp)

section \<open>Delayed rejection: the acceptance tests\<close>

lemma np_compare_same_length:
  "length ys = length xs \<Longrightarrow> np_compare f xs ys = Some (map (\<lambda>(x, y). f x y) (zip xs ys))"
  by (simp add: np_compare_def)

lemma any_cmp_same_length:
  "length ys = length xs \<Longrightarrow> any_cmp f xs ys \<longleftrightarrow> (\<exists>i<length xs. f (xs ! i) (ys ! i))"
  unfolding any_cmp_def np_compare_same_length list_ex_iff
  by (auto simp: set_zip)

lemma out_of_bounds_iff:
  "length lo = length qv \<Longrightarrow> length hi = length qv \<Longrightarrow>
   out_of_bounds qv lo hi \<longleftrightarrow>
     (\<exists>i<length qv. fl_lt (qv ! i) (lo ! i) \<or> fl_gt (qv ! i) (hi ! i))"
  unfolding out_of_bounds_def by (auto simp: any_cmp_same_length)

lemma bounds_fit:
  "length lo = length qv \<Longrightarrow> length hi = length qv \<Longrightarrow> \<not> bounds_raise qv lo hi"
  by (simp add: bounds_raise_def np_compare_same_length)

lemma alpha10_py_min: "alpha10 (first_stage md N n cinv e0 q1) = py_min (Fin 1) (pi10 (first_stage md N n cinv e0 q1))"
  by (simp add: first_stage_def Let_def)

lemma first_stage_out_of_bounds:
  "out_of_bounds q1 (lowerLimits md) (upperLimits md) \<Longrightarrow>
     alpha10 (first_stage md N n cinv e0 q1) = Fin 0"
  by (simp add: first_stage_def py_min_def)

lemma second_stage_out_of_bounds:
  "out_of_bounds q2 (lowerLimits md) (upperLimits md) \<Longrightarrow>
     alpha210 (second_stage md N n cinv qinv q0 q1 s q2) = Fin 0"
  by (simp add: second_stage_def)

lemma dr_stage1_eq:
  "dr_stage1 (delayed_rejection md N n d st) =
     first_stage md N n (cov_err_inv st) (cur_err st) (dr_q1 (delayed_rejection md N n d st))"
  by (simp add: delayed_rejection_def Let_def)

lemma dr_stage2_eq:
  "dr_q2 (delayed_rejection md N n d st) = Some q2 \<Longrightarrow>
   dr_stage2 (delayed_rejection md N n d st) =
     Some (second_stage md N n (cov_err_inv st) (cov_q_inv st) (cur_q st)
       (dr_q1 (delayed_rejection md N n d st)) (dr_stage1 (delayed_rejection md N n d st)) q2)"
  by (auto simp: delayed_rejection_def Let_def split: if_splits)

lemma dr_outcome_cases:
  "(dr_outcome (delayed_rejection md N n d st) = AcceptStage1 \<and>
      fl_gt (alpha10 (dr_stage1 (delayed_rejection md N n d st))) (Fin (rand1 d)) \<and>
      dr_q (delayed_rejection md N n d st) = dr_q1 (delayed_rejection md N n d st) \<and>
      dr_q2 (delayed_rejection md N n d st) = None) \<or>
   (dr_outcome (delayed_rejection md N n d st) = AcceptStage2 \<and>
      \<not> fl_gt (alpha10 (dr_stage1 (delayed_rejection md N n d st))) (Fin (rand1 d)) \<and>
      (\<exists>s2. dr_stage2 (delayed_rejection md N n d st) = Some s2 \<and> fl_gt (alpha210 s2) (Fin (rand2 d))) \<and>
      dr_q2 (delayed_rejection md N n d st) = Some (dr_q (delayed_rejection md N n d st))) \<or>
   (dr_outcome (delayed_rejection md N n d st) = RejectBoth \<and>
      \<not> fl_gt (alpha10 (dr_stage1 (delayed_rejection md N n d st))) (Fin (rand1 d)) \<and>
      (\<exists>s2. dr_stage2 (delayed_rejection md N n d st) = Some s2 \<and> \<not> fl_gt (alpha210 s2) (Fin (rand2 d))) \<and>
      (\<exists>q2. dr_q2 (delayed_rejection md N n d st) = Some q2) \<and>
      dr_q (delayed_rejection md N n d st) = cur_q st \<and>
      dr_err (delayed_rejection md N n d st) = cur_err st)"
  by (simp add: delayed_rejection_def Let_def)

text \<open>
  Claim C1, as amended. In every iteration (any state \<open>st\<close>, any draws \<open>d\<close> whose uniform
  numbers are not negative) and with one limit for each parameter, a candidate with a
  component strictly below its lower limit or strictly above its upper limit gets the
  acceptance probability 0 and fails the acceptance test, whatever the residuals are.
  When this is the first-stage candidate \<open>q1\<close>, stage 1 does not accept it, stage 2 starts
  from the previous state, and the iteration ends either with both candidates rejected, in
  the previous accepted state, or with the second-stage candidate accepted. When it is the
  second-stage candidate \<open>q2\<close>, both candidates were rejected and \<^verbatim>\<open>q\<close> and \<^verbatim>\<open>err\<close> are
  those of the previous accepted state.
\<close>

theorem out_of_bounds_rejected:
  assumes "0 \<le> rand1 d" and "0 \<le> rand2 d"
    and "length (lowerLimits md) = length (cur_q st)"
    and "length (upperLimits md) = length (cur_q st)"
  shows
    "let r = delayed_rejection md N n d st; lo = lowerLimits md; hi = upperLimits md in
     (length (dr_q1 r) = length (cur_q st) \<and>
      (\<exists>i<length (dr_q1 r). fl_lt (dr_q1 r ! i) (lo ! i) \<or> fl_gt (dr_q1 r ! i) (hi ! i)) \<longrightarrow>
        \<not> bounds_raise (dr_q1 r) lo hi \<and>
        alpha10 (dr_stage1 r) = Fin 0 \<and> \<not> fl_gt (alpha10 (dr_stage1 r)) (Fin (rand1 d)) \<and>
        dr_outcome r \<noteq> AcceptStage1 \<and>
        ((dr_outcome r = RejectBoth \<and> dr_q r = cur_q st \<and> dr_err r = cur_err st) \<or>
         (dr_outcome r = AcceptStage2 \<and> dr_q2 r = Some (dr_q r)))) \<and>
     (\<forall>q2. dr_q2 r = Some q2 \<and> length q2 = length (cur_q st) \<and>
        (\<exists>i<length q2. fl_lt (q2 ! i) (lo ! i) \<or> fl_gt (q2 ! i) (hi ! i)) \<longrightarrow>
        \<not> bounds_raise q2 lo hi \<and>
        (\<exists>s2. dr_stage2 r = Some s2 \<and> alpha210 s2 = Fin 0 \<and>
               \<not> fl_gt (alpha210 s2) (Fin (rand2 d))) \<and>
        dr_outcome r = RejectBoth \<and> dr_q r = cur_q st \<and> dr_err r = cur_err st)"
proof -
  define r where "r = delayed_rejection md N n d st"
  have one: "alpha10 (dr_stage1 r) = Fin 0 \<and> \<not> fl_gt (alpha10 (dr_stage1 r)) (Fin (rand1 d)) \<and>
        dr_outcome r \<noteq> AcceptStage1 \<and>
        ((dr_outcome r = RejectBoth \<and> dr_q r = cur_q st \<and> dr_err r = cur_err st) \<or>
         (dr_outcome r = AcceptStage2 \<and> dr_q2 r = Some (dr_q r)))"
    if "out_of_bounds (dr_q1 r) (lowerLimits md) (upperLimits md)"
  proof -
    have a: "alpha10 (dr_stage1 r) = Fin 0"
      using that by (simp add: r_def dr_stage1_eq first_stage_out_of_bounds)
    then have b: "\<not> fl_gt (alpha10 (dr_stage1 r)) (Fin (rand1 d))"
      using assms(1) by (simp add: fl_gt_def)
    with dr_outcome_cases [of md N n d st] a show ?thesis
      unfolding r_def by auto
  qed
  have two: "(\<exists>s2. dr_stage2 r = Some s2 \<and> alpha210 s2 = Fin 0 \<and>
               \<not> fl_gt (alpha210 s2) (Fin (rand2 d))) \<and>
        dr_outcome r = RejectBoth \<and> dr_q r = cur_q st \<and> dr_err r = cur_err st"
    if q2: "dr_q2 r = Some q2" and oob: "out_of_bounds q2 (lowerLimits md) (upperLimits md)" for q2
  proof -
    obtain s2 where s2: "dr_stage2 r = Some s2" "alpha210 s2 = Fin 0"
      using oob dr_stage2_eq [OF q2 [unfolded r_def]]
      by (simp add: r_def second_stage_out_of_bounds)
    then have b: "\<not> fl_gt (alpha210 s2) (Fin (rand2 d))"
      using assms(2) by (simp add: fl_gt_def)
    with dr_outcome_cases [of md N n d st] s2 q2 show ?thesis
      unfolding r_def by auto
  qed
  have fit: "\<not> bounds_raise qv (lowerLimits md) (upperLimits md) \<and>
      (out_of_bounds qv (lowerLimits md) (upperLimits md) \<longleftrightarrow>
       (\<exists>i<length qv. fl_lt (qv ! i) (lowerLimits md ! i) \<or> fl_gt (qv ! i) (upperLimits md ! i)))"
    if "length qv = length (cur_q st)" for qv
    using that assms(3,4) by (simp add: bounds_fit out_of_bounds_iff)
  show ?thesis
    unfolding Let_def r_def [symmetric] using one two fit by blast
qed

theorem out_of_bounds_rejected_witness:
  "0 \<le> rand1 (ex_draws 30 (- 200)) \<and> 0 \<le> rand2 (ex_draws 30 (- 200)) \<and>
   0 \<le> rand1 (ex_draws 21 5) \<and> 0 \<le> rand2 (ex_draws 21 5) \<and>
   length (lowerLimits ex_md) = length (cur_q (ex_state 2)) \<and>
   length (upperLimits ex_md) = length (cur_q (ex_state 2)) \<and>
   dr_q1 (delayed_rejection ex_md 1 1 (ex_draws 30 (- 200)) (ex_state 2)) = [Fin 50] \<and>
   fl_gt ([Fin 50] ! 0) (upperLimits ex_md ! 0) \<and>
   dr_q2 (delayed_rejection ex_md 1 1 (ex_draws 30 (- 200)) (ex_state 2)) = Some [Fin (- 20)] \<and>
   fl_lt ([Fin (- 20)] ! 0) (lowerLimits ex_md ! 0) \<and>
   alpha10 (dr_stage1 (delayed_rejection ex_md 1 1 (ex_draws 30 (- 200)) (ex_state 2))) = Fin 0 \<and>
   dr_outcome (delayed_rejection ex_md 1 1 (ex_draws 30 (- 200)) (ex_state 2)) = RejectBoth \<and>
   dr_q (delayed_rejection ex_md 1 1 (ex_draws 30 (- 200)) (ex_state 2)) = cur_q (ex_state 2) \<and>
   dr_q1 (delayed_rejection ex_md 1 1 (ex_draws 21 5) (ex_state 2)) = [Fin 41] \<and>
   fl_gt ([Fin 41] ! 0) (upperLimits ex_md ! 0) \<and>
   alpha10 (dr_stage1 (delayed_rejection ex_md 1 1 (ex_draws 21 5) (ex_state 2))) = Fin 0 \<and>
   dr_outcome (delayed_rejection ex_md 1 1 (ex_draws 21 5) (ex_state 2)) \<noteq> AcceptStage1"
proof -
  have h: "0 \<le> rand1 (ex_draws 30 (- 200))" "0 \<le> rand2 (ex_draws 30 (- 200))"
    "0 \<le> rand1 (ex_draws 21 5)" "0 \<le> rand2 (ex_draws 21 5)"
    by (simp_all add: ex_draws_def)
  have l: "length (lowerLimits ex_md) = length (cur_q (ex_state 2))"
    "length (upperLimits ex_md) = length (cur_q (ex_state 2))"
    by (simp_all add: ex_md_def ex_state_def)
  have a: "dr_q1 (delayed_rejection ex_md 1 1 (ex_draws 30 (- 200)) (ex_state 2)) = [Fin 50]"
    "dr_q2 (delayed_rejection ex_md 1 1 (ex_draws 30 (- 200)) (ex_state 2)) = Some [Fin (- 20)]"
    unfolding ex_dr_both_out by simp_all
  have b: "dr_q1 (delayed_rejection ex_md 1 1 (ex_draws 21 5) (ex_state 2)) = [Fin 41]"
    unfolding ex_dr_accept2 by simp
  have v: "fl_gt ([Fin 50] ! 0) (upperLimits ex_md ! 0)"
    "fl_lt ([Fin (- 20)] ! 0) (lowerLimits ex_md ! 0)"
    "fl_gt ([Fin 41] ! 0) (upperLimits ex_md ! 0)"
    by (simp_all add: ex_md_def fl_gt_def)
  have len: "length [Fin 50] = length (cur_q (ex_state 2))"
    "length [Fin (- 20)] = length (cur_q (ex_state 2))"
    "length [Fin 41] = length (cur_q (ex_state 2))"
    by (simp_all add: ex_state_def)
  note t1 = out_of_bounds_rejected [OF h(1,2) l, of 1 1, unfolded Let_def a]
  from t1 v(1,2) len(1,2)
  have c1: "alpha10 (dr_stage1 (delayed_rejection ex_md 1 1 (ex_draws 30 (- 200)) (ex_state 2))) = Fin 0 \<and>
   dr_outcome (delayed_rejection ex_md 1 1 (ex_draws 30 (- 200)) (ex_state 2)) = RejectBoth \<and>
   dr_q (delayed_rejection ex_md 1 1 (ex_draws 30 (- 200)) (ex_state 2)) = cur_q (ex_state 2)"
    by (metis length_Cons list.size(3) zero_less_Suc)
  note t2 = out_of_bounds_rejected [OF h(3,4) l, of 1 1, unfolded Let_def b]
  from t2 v(3) len(3)
  have c2: "alpha10 (dr_stage1 (delayed_rejection ex_md 1 1 (ex_draws 21 5) (ex_state 2))) = Fin 0 \<and>
   dr_outcome (delayed_rejection ex_md 1 1 (ex_draws 21 5) (ex_state 2)) \<noteq> AcceptStage1"
    by (metis length_Cons list.size(3) zero_less_Suc)
  from h l a b v c1 c2 show ?thesis by blast
qed

lemma py_min_one_lt: "\<not> fl_gt (py_min (Fin 1) x) (Fin u) \<Longrightarrow> u < 1 \<Longrightarrow> fl_lt (py_min (Fin 1) x) (Fin 1)"
  by (auto simp: py_min_def fl_gt_def split: if_splits)

lemma fl_lt_one_sub: "fl_lt a (Fin 1) \<Longrightarrow> fl_sub (Fin 1) a \<noteq> Fin 0"
  by (cases a) (simp_all add: fl_sub_def)

text \<open>
  Claim C9. A first-stage candidate with \<open>alpha10 = 1\<close> is accepted for every uniform
  number below 1. Hence, whenever the second stage is reached, \<open>alpha10\<close> is strictly
  below 1 and the denominator \<open>1 - alpha10\<close> of \<open>alpha210\<close> is not zero. And
  \<open>alpha210\<close> is 0 whenever \<open>alpha12 == 1\<close>.
\<close>

theorem stage2_denominator_nonzero:
  assumes "rand1 d < 1"
  shows
    "let r = delayed_rejection md N n d st; a10 = alpha10 (dr_stage1 r) in
     (a10 = Fin 1 \<longrightarrow> dr_outcome r = AcceptStage1) \<and>
     (dr_outcome r \<noteq> AcceptStage1 \<longrightarrow> fl_lt a10 (Fin 1) \<and> fl_sub (Fin 1) a10 \<noteq> Fin 0) \<and>
     (\<forall>p20 j12 j10 a12. fl_eq a12 (Fin 1) \<longrightarrow> alpha210_of p20 j12 j10 a12 a10 = Fin 0)"
proof -
  define r where "r = delayed_rejection md N n d st"
  have lt: "fl_lt (alpha10 (dr_stage1 r)) (Fin 1)" if "dr_outcome r \<noteq> AcceptStage1"
  proof -
    from that dr_outcome_cases [of md N n d st]
    have "\<not> fl_gt (alpha10 (dr_stage1 r)) (Fin (rand1 d))"
      unfolding r_def by auto
    then show ?thesis
      using assms py_min_one_lt [of "pi10 (dr_stage1 r)" "rand1 d"]
      by (simp add: r_def dr_stage1_eq alpha10_py_min)
  qed
  have acc: "dr_outcome r = AcceptStage1" if "alpha10 (dr_stage1 r) = Fin 1"
  proof (rule ccontr)
    assume "dr_outcome r \<noteq> AcceptStage1"
    from lt [OF this] that show False by simp
  qed
  show ?thesis
    unfolding Let_def r_def [symmetric]
    using lt acc fl_lt_one_sub by (auto simp: alpha210_of_def)
qed

theorem stage2_denominator_nonzero_witness:
  "rand1 (ex_draws 0 0) < 1 \<and> rand1 (ex_draws 30 (- 200)) < 1 \<and>
   alpha10 (dr_stage1 (delayed_rejection ex_md 1 1 (ex_draws 0 0) (ex_state 2))) = Fin 1 \<and>
   dr_outcome (delayed_rejection ex_md 1 1 (ex_draws 0 0) (ex_state 2)) = AcceptStage1 \<and>
   dr_outcome (delayed_rejection ex_md 1 1 (ex_draws 30 (- 200)) (ex_state 2)) \<noteq> AcceptStage1 \<and>
   fl_sub (Fin 1)
     (alpha10 (dr_stage1 (delayed_rejection ex_md 1 1 (ex_draws 30 (- 200)) (ex_state 2)))) \<noteq> Fin 0 \<and>
   fl_eq (Fin 1) (Fin 1) \<and>
   alpha210_of (Fin 1) (Fin 1) (Fin 1) (Fin 1)
     (alpha10 (dr_stage1 (delayed_rejection ex_md 1 1 (ex_draws 30 (- 200)) (ex_state 2)))) = Fin 0"
proof -
  have h1: "rand1 (ex_draws 0 0) < 1" and h2: "rand1 (ex_draws 30 (- 200)) < 1"
    by (simp_all add: ex_draws_def)
  have a: "alpha10 (dr_stage1 (delayed_rejection ex_md 1 1 (ex_draws 0 0) (ex_state 2))) = Fin 1"
    unfolding ex_dr_accept1 by simp
  have b: "dr_outcome (delayed_rejection ex_md 1 1 (ex_draws 30 (- 200)) (ex_state 2)) \<noteq> AcceptStage1"
    unfolding ex_dr_both_out by simp
  have c: "fl_eq (Fin 1) (Fin 1)" by simp
  from stage2_denominator_nonzero [OF h1, of ex_md 1 1 "ex_state 2"] a
  have 1: "dr_outcome (delayed_rejection ex_md 1 1 (ex_draws 0 0) (ex_state 2)) = AcceptStage1"
    unfolding Let_def by blast
  from stage2_denominator_nonzero [OF h2, of ex_md 1 1 "ex_state 2"] b c
  have 2: "fl_sub (Fin 1)
     (alpha10 (dr_stage1 (delayed_rejection ex_md 1 1 (ex_draws 30 (- 200)) (ex_state 2)))) \<noteq> Fin 0"
    "alpha210_of (Fin 1) (Fin 1) (Fin 1) (Fin 1)
     (alpha10 (dr_stage1 (delayed_rejection ex_md 1 1 (ex_draws 30 (- 200)) (ex_state 2)))) = Fin 0"
    unfolding Let_def by blast+
  from h1 h2 a b c 1 2 show ?thesis by blast
qed

section \<open>One iteration of the sampler\<close>

lemma commit_cov_q_Inr:
  "commit_cov_q la p st = Inr st' \<longleftrightarrow>
     (\<exists>cinv rw. invert la p (qCov st) = Inr cinv \<and> la_cholesky la (qCov st) = Some rw \<and>
        st' = st\<lparr>cov_q := qCov st, cov_q_inv := cinv, R1 := mat_times rw (sp p),
                 R2 := mat_div (mat_times rw (sp p)) (Fin 5)\<rparr>)"
  by (auto simp: commit_cov_q_def Let_def bind_err_Inr or_raise_Inr)

lemma adapt_chain:
  assumes "adapt la p Mo k qv st = Inr st'"
  shows "chain_q st' = chain_q st \<and> cur_q st' = cur_q st \<and> cur_err st' = cur_err st \<and>
         chain_cov_err st' = chain_cov_err st \<and> last_cov_q st' = last_cov_q st \<and>
         cov_err st' = cov_err st \<and> cov_err_inv st' = cov_err_inv st"
  using assms by (auto simp: adapt_def Let_def commit_cov_q_Inr split: if_splits)

lemma adapt_stats:
  assumes "adapt la p Mo k qv st = Inr st'"
  shows "(ko \<le> k \<longrightarrow> qBar st' = qBar_next k (qBar st) qv \<and>
            qCov st' = qCov_next k (qCov st) (qBar st) (qBar st') qv) \<and>
         (k = ko - 1 \<longrightarrow> qBar st' = col_means (take ko (chain_q st)) \<and>
            qCov st' = np_cov (take ko (chain_q st))) \<and>
         (k < ko - 1 \<longrightarrow> qBar st' = qBar st \<and> qCov st' = qCov st)"
  using assms by (auto simp: adapt_def Let_def commit_cov_q_Inr ko_def split: if_splits)

lemma adapt_steps:
  assumes "adapt la p Mo k qv st = Inr st'"
  shows "(ko \<le> k \<and> (k + Mo) mod ko = 0 \<longrightarrow>
            cov_q st' = qCov st' \<and> invert la p (qCov st') = Inr (cov_q_inv st') \<and>
            (\<exists>rw. la_cholesky la (cov_q st') = Some rw \<and> R1 st' = mat_times rw (sp p) \<and>
               R2 st' = mat_div (R1 st') (Fin 5))) \<and>
         (\<not> (ko \<le> k \<and> (k + Mo) mod ko = 0) \<longrightarrow>
            R1 st' = R1 st \<and> R2 st' = R2 st \<and> cov_q st' = cov_q st \<and>
            cov_q_inv st' = cov_q_inv st)"
  using assms by (auto simp: adapt_def Let_def commit_cov_q_Inr ko_def split: if_splits)

lemma dram_iteration_Inr:
  assumes "dram_iteration la md N n p Mo pri k d st = Inr st'"
  shows "\<not> broadcast_error md N n d st \<and>
         adaptive_metropolis la N n p Mo pri k d (dr_q (delayed_rejection md N n d st))
           (dr_err (delayed_rejection md N n d st)) st = Inr st'"
  using assms by (simp add: dram_iteration_def Let_def split: if_splits)

lemma adaptive_metropolis_Inr:
  "adaptive_metropolis la N n p Mo pri k d qv ev st = Inr st' \<longleftrightarrow>
     k < length (chain_q st) \<and> k < length (chain_cov_err st) \<and>
     (\<exists>ce ceinv.
        invwishart_rvs d (fl_add (nu_s pri) (Fin (real n))) (mat_add (psi_s pri) (gram ev)) = Some ce \<and>
        invert la N ce = Inr ceinv \<and>
        adapt la p Mo k qv
          (st\<lparr>cur_q := qv, cur_err := ev, chain_q := (chain_q st)[k := qv],
              last_cov_q := cov_q st, chain_cov_err := (chain_cov_err st)[k := cov_err st],
              cov_err := ce, cov_err_inv := ceinv\<rparr>) = Inr st')"
  by (auto simp: adaptive_metropolis_def Let_def bind_err_Inr or_raise_Inr)

lemmas am_defs = dram_iteration_def adaptive_metropolis_def adapt_def commit_cov_q_def invert_def
  bind_err_def or_raise_def qBar_next_def qCov_next_def sp_def

lemma ex_iteration_1:
  "dram_iteration ex_la ex_md 1 1 1 1 ex_prior 1 (ex_draws (- 1 / 2) 0) (ex_state 2) =
     Inr \<lparr>cur_q = [Fin (39 / 2)], cur_err = [[Fin (1 / 2)]], cov_q = [[Fin 1]],
          cov_q_inv = [[Fin 1]], cov_err = [[Fin (1 / 4)]], cov_err_inv = [[Fin 4]],
          qBar = [Fin 20], qCov = [[Fin 1]], R1 = [[Fin 1]], R2 = [[Fin (1 / 5)]],
          chain_q = [[Fin 20], [Fin (39 / 2)]], last_cov_q = [[Fin 1]],
          chain_cov_err = [[[Fin 1]], [[Fin 1]]]\<rparr>"
  by (simp add: am_defs dr_defs ex_defs la_defs ex_prior_def ko_def numeral_2_eq_2)

lemma ex_outcome_1:
  "dr_outcome (delayed_rejection ex_md 1 1 (ex_draws (- 1 / 2) 0) (ex_state 2)) = AcceptStage1"
  by (simp add: dr_defs ex_defs la_defs)

lemma ex_iteration_100:
  "dram_iteration ex_la ex_md 1 1 1 100 ex_prior 100 (ex_draws 30 0) (ex_state 101) =
     Inr \<lparr>cur_q = [Fin 20], cur_err = [[Fin 1]], cov_q = [[Fin (99 / 100)]],
          cov_q_inv = [[Fin (100 / 99)]], cov_err = [[Fin 1]], cov_err_inv = [[Fin 1]],
          qBar = [Fin 20], qCov = [[Fin (99 / 100)]],
          R1 = [[Fin (sqrt (99 / 100) * 119 / 50)]],
          R2 = [[Fin (sqrt (99 / 100) * 119 / 250)]],
          chain_q = (replicate 101 [Fin 0])[0 := [Fin 20], 100 := [Fin 20]],
          last_cov_q = [[Fin 1]],
          chain_cov_err = (replicate 101 [[Fin 0]])[0 := [[Fin 1]], 100 := [[Fin 1]]]\<rparr>"
  by (simp add: am_defs dr_defs ex_defs la_defs ex_prior_def ko_def)

lemma ex_iteration_99:
  "\<exists>st'. dram_iteration ex_la ex_md 1 1 1 1 ex_prior 99 (ex_draws 30 0) (ex_state 100) = Inr st'"
  by (simp add: dram_iteration_def adaptive_metropolis_def adapt_def invert_def bind_err_def
      or_raise_def dr_defs fl_sum_def dotp_def mat_vec_def vec_mat_def mat_mul_def vec_add_def
      vec_sub_def trace_def fl_sub_def fl_gt_def py_min_def mat_add_def mat_recip_def
      ex_defs ex_prior_def ko_def)

lemma ex_iteration_accept2:
  "dram_iteration ex_la ex_md 1 1 1 1 ex_prior 1 (ex_draws 21 5) (ex_state 2) =
     Inr \<lparr>cur_q = [Fin 21], cur_err = [[Fin 2]], cov_q = [[Fin 1]],
          cov_q_inv = [[Fin 1]], cov_err = [[Fin 4]], cov_err_inv = [[Fin (1 / 4)]],
          qBar = [Fin 20], qCov = [[Fin 1]], R1 = [[Fin 1]], R2 = [[Fin (1 / 5)]],
          chain_q = [[Fin 20], [Fin 21]], last_cov_q = [[Fin 1]],
          chain_cov_err = [[[Fin 1]], [[Fin 1]]]\<rparr>"
  by (simp add: am_defs dr_defs ex_defs la_defs ex_prior_def ko_def numeral_2_eq_2 mult_exp_exp)

text \<open>
  Claim C1 as it was stated fails for the first stage: an out-of-bounds first candidate is
  never accepted, but the chain state need not remain the previous accepted state, since
  the second stage may still accept its candidate. Here \<open>q1 = 41\<close> is above the upper limit
  40, the second candidate \<open>q2 = 21\<close> is accepted (\<open>alpha210 = 1\<close>) and row 1 of the chain
  is 21, while the previous accepted state is 20.
\<close>

theorem stage1_out_of_bounds_counterexample:
  "0 \<le> rand1 (ex_draws 21 5) \<and> 0 \<le> rand2 (ex_draws 21 5) \<and>
   dr_q1 (delayed_rejection ex_md 1 1 (ex_draws 21 5) (ex_state 2)) = [Fin 41] \<and>
   upperLimits ex_md = [Fin 40] \<and> fl_gt (Fin 41) (Fin 40) \<and>
   cur_q (ex_state 2) = [Fin 20] \<and>
   dr_outcome (delayed_rejection ex_md 1 1 (ex_draws 21 5) (ex_state 2)) = AcceptStage2 \<and>
   dr_q (delayed_rejection ex_md 1 1 (ex_draws 21 5) (ex_state 2)) = [Fin 21] \<and>
   dr_q (delayed_rejection ex_md 1 1 (ex_draws 21 5) (ex_state 2)) \<noteq> cur_q (ex_state 2) \<and>
   dram_iteration ex_la ex_md 1 1 1 1 ex_prior 1 (ex_draws 21 5) (ex_state 2) =
     Inr \<lparr>cur_q = [Fin 21], cur_err = [[Fin 2]], cov_q = [[Fin 1]],
          cov_q_inv = [[Fin 1]], cov_err = [[Fin 4]], cov_err_inv = [[Fin (1 / 4)]],
          qBar = [Fin 20], qCov = [[Fin 1]], R1 = [[Fin 1]], R2 = [[Fin (1 / 5)]],
          chain_q = [[Fin 20], [Fin 21]], last_cov_q = [[Fin 1]],
          chain_cov_err = [[[Fin 1]], [[Fin 1]]]\<rparr>"
  unfolding ex_dr_accept2 ex_iteration_accept2
  by (simp add: ex_draws_def ex_md_def ex_state_def fl_gt_def)

text \<open>
  Claim C2. An iteration that completes writes exactly one row of \<open>chain_q\<close>, row \<open>k\<close>:
  the chain keeps its length and every other row. The row is the new \<^verbatim>\<open>q\<close>, which is the
  first-stage candidate when stage 1 accepted, the second-stage candidate when stage 2
  accepted, and the previous state when both candidates were rejected. (An iteration in
  which the linear-algebra kernel or the inverse-Wishart draw fails ends the call.)
\<close>

theorem one_row_per_iteration:
  assumes "dram_iteration la md N n p Mo pri k d st = Inr st'"
  shows
    "let r = delayed_rejection md N n d st in
     k < length (chain_q st) \<and>
     chain_q st' = (chain_q st)[k := cur_q st'] \<and>
     length (chain_q st') = length (chain_q st) \<and>
     chain_q st' ! k = cur_q st' \<and>
     (\<forall>i. i \<noteq> k \<longrightarrow> chain_q st' ! i = chain_q st ! i) \<and>
     ((dr_outcome r = AcceptStage1 \<and> cur_q st' = dr_q1 r) \<or>
      (dr_outcome r = AcceptStage2 \<and> dr_q2 r = Some (cur_q st')) \<or>
      (dr_outcome r = RejectBoth \<and> cur_q st' = cur_q st))"
proof -
  define r where "r = delayed_rejection md N n d st"
  from dram_iteration_Inr [OF assms] obtain ce ceinv where k: "k < length (chain_q st)"
    and a: "adapt la p Mo k (dr_q r)
          (st\<lparr>cur_q := dr_q r, cur_err := dr_err r, chain_q := (chain_q st)[k := dr_q r],
              last_cov_q := cov_q st, chain_cov_err := (chain_cov_err st)[k := cov_err st],
              cov_err := ce, cov_err_inv := ceinv\<rparr>) = Inr st'"
    unfolding adaptive_metropolis_Inr r_def by blast
  from adapt_chain [OF a] have c: "chain_q st' = (chain_q st)[k := dr_q r]" "cur_q st' = dr_q r"
    by simp_all
  have o: "(dr_outcome r = AcceptStage1 \<and> dr_q r = dr_q1 r) \<or>
      (dr_outcome r = AcceptStage2 \<and> dr_q2 r = Some (dr_q r)) \<or>
      (dr_outcome r = RejectBoth \<and> dr_q r = cur_q st)"
    using dr_outcome_cases [of md N n d st] unfolding r_def by blast
  show ?thesis
    unfolding Let_def r_def [symmetric] using k c o by simp
qed

theorem one_row_per_iteration_witness:
  "\<exists>st'. dram_iteration ex_la ex_md 1 1 1 1 ex_prior 1 (ex_draws (- 1 / 2) 0) (ex_state 2) = Inr st' \<and>
     chain_q (ex_state 2) = [[Fin 20], [Fin 0]] \<and>
     chain_q st' = [[Fin 20], [Fin (39 / 2)]] \<and>
     chain_q st' = (chain_q (ex_state 2))[1 := cur_q st'] \<and>
     dr_outcome (delayed_rejection ex_md 1 1 (ex_draws (- 1 / 2) 0) (ex_state 2)) = AcceptStage1 \<and>
     cur_q st' = dr_q1 (delayed_rejection ex_md 1 1 (ex_draws (- 1 / 2) 0) (ex_state 2))"
proof -
  define s where "s = \<lparr>cur_q = [Fin (39 / 2)], cur_err = [[Fin (1 / 2)]], cov_q = [[Fin 1]],
          cov_q_inv = [[Fin 1]], cov_err = [[Fin (1 / 4)]], cov_err_inv = [[Fin 4]],
          qBar = [Fin 20], qCov = [[Fin 1]], R1 = [[Fin 1]], R2 = [[Fin (1 / 5)]],
          chain_q = [[Fin 20], [Fin (39 / 2)]], last_cov_q = [[Fin 1]],
          chain_cov_err = [[[Fin 1]], [[Fin 1]]]\<rparr>"
  have e: "dram_iteration ex_la ex_md 1 1 1 1 ex_prior 1 (ex_draws (- 1 / 2) 0) (ex_state 2) = Inr s"
    unfolding s_def by (rule ex_iteration_1)
  have f: "chain_q (ex_state 2) = [[Fin 20], [Fin 0]]" "chain_q s = [[Fin 20], [Fin (39 / 2)]]"
    by (simp_all add: ex_state_def s_def numeral_2_eq_2)
  from one_row_per_iteration [OF e, unfolded Let_def] ex_outcome_1
  have "chain_q s = (chain_q (ex_state 2))[1 := cur_q s] \<and>
     cur_q s = dr_q1 (delayed_rejection ex_md 1 1 (ex_draws (- 1 / 2) 0) (ex_state 2))"
    by (metis outcome.distinct(1) outcome.distinct(3))
  with e f ex_outcome_1 show ?thesis by blast
qed

text \<open>
  Claim C6. An iteration changes the proposal covariance \<open>cov_q\<close>, its inverse and the step
  matrices \<open>R1\<close> and \<open>R2\<close> only when \<open>k \<ge> ko\<close> and \<open>(k + Mo) mod ko = 0\<close>. Then \<open>cov_q\<close> is
  the running covariance \<open>qCov\<close> of this iteration, \<open>cov_q_inv\<close> its inverse, \<open>R1\<close> the
  Cholesky factor of \<open>cov_q\<close> times \<open>sp\<close> and \<open>R2\<close> is \<open>R1 / 5\<close>. In every other iteration
  the four are what they were.
\<close>

theorem step_matrices_frame:
  assumes "dram_iteration la md N n p Mo pri k d st = Inr st'"
  shows
    "(ko \<le> k \<and> (k + Mo) mod ko = 0 \<longrightarrow>
        cov_q st' = qCov st' \<and> invert la p (cov_q st') = Inr (cov_q_inv st') \<and>
        (\<exists>rw. la_cholesky la (cov_q st') = Some rw \<and> R1 st' = mat_times rw (sp p) \<and>
           R2 st' = mat_div (R1 st') (Fin 5))) \<and>
     (\<not> (ko \<le> k \<and> (k + Mo) mod ko = 0) \<longrightarrow>
        R1 st' = R1 st \<and> R2 st' = R2 st \<and> cov_q st' = cov_q st \<and>
        cov_q_inv st' = cov_q_inv st)"
proof -
  from dram_iteration_Inr [OF assms]
  obtain st1 where a: "adapt la p Mo k (dr_q (delayed_rejection md N n d st)) st1 = Inr st'"
    and f: "R1 st1 = R1 st" "R2 st1 = R2 st" "cov_q st1 = cov_q st" "cov_q_inv st1 = cov_q_inv st"
    unfolding adaptive_metropolis_Inr by fastforce
  from adapt_steps [OF a] f show ?thesis by metis
qed

theorem step_matrices_frame_witness:
  "(\<exists>st'. dram_iteration ex_la ex_md 1 1 1 100 ex_prior 100 (ex_draws 30 0) (ex_state 101) = Inr st' \<and>
      ko \<le> 100 \<and> (100 + 100) mod ko = 0 \<and>
      cov_q st' = qCov st' \<and> cov_q st' = [[Fin (99 / 100)]] \<and>
      R2 st' = mat_div (R1 st') (Fin 5)) \<and>
   (\<exists>st'. dram_iteration ex_la ex_md 1 1 1 1 ex_prior 1 (ex_draws (- 1 / 2) 0) (ex_state 2) = Inr st' \<and>
      \<not> (ko \<le> 1 \<and> (1 + 1) mod ko = 0) \<and>
      R1 st' = R1 (ex_state 2) \<and> R2 st' = R2 (ex_state 2) \<and> cov_q st' = cov_q (ex_state 2) \<and>
      cov_q_inv st' = cov_q_inv (ex_state 2))"
proof -
  have k: "ko \<le> 100 \<and> (100 + 100) mod ko = 0" "\<not> (ko \<le> 1 \<and> (1 + 1) mod ko = 0)"
    by (simp_all add: ko_def)
  define s where "s = \<lparr>cur_q = [Fin 20], cur_err = [[Fin 1]], cov_q = [[Fin (99 / 100)]],
          cov_q_inv = [[Fin (100 / 99)]], cov_err = [[Fin 1]], cov_err_inv = [[Fin 1]],
          qBar = [Fin 20], qCov = [[Fin (99 / 100)]],
          R1 = [[Fin (sqrt (99 / 100) * 119 / 50)]],
          R2 = [[Fin (sqrt (99 / 100) * 119 / 250)]],
          chain_q = (replicate 101 [Fin 0])[0 := [Fin 20], 100 := [Fin 20]],
          last_cov_q = [[Fin 1]],
          chain_cov_err = (replicate 101 [[Fin 0]])[0 := [[Fin 1]], 100 := [[Fin 1]]]\<rparr>"
  have e: "dram_iteration ex_la ex_md 1 1 1 100 ex_prior 100 (ex_draws 30 0) (ex_state 101) = Inr s"
    unfolding s_def by (rule ex_iteration_100)
  have f: "cov_q s = [[Fin (99 / 100)]]" by (simp add: s_def)
  from step_matrices_frame [OF e] k(1)
  have a: "cov_q s = qCov s \<and> R2 s = mat_div (R1 s) (Fin 5)"
    by blast
  obtain s1 where e1: "dram_iteration ex_la ex_md 1 1 1 1 ex_prior 1 (ex_draws (- 1 / 2) 0) (ex_state 2) = Inr s1"
    using ex_iteration_1 by blast
  from step_matrices_frame [OF e1] k(2)
  have b: "R1 s1 = R1 (ex_state 2) \<and> R2 s1 = R2 (ex_state 2) \<and> cov_q s1 = cov_q (ex_state 2) \<and>
      cov_q_inv s1 = cov_q_inv (ex_state 2)"
    by blast
  from e f a k(1) have 1: "\<exists>st'. dram_iteration ex_la ex_md 1 1 1 100 ex_prior 100 (ex_draws 30 0) (ex_state 101) = Inr st' \<and>
      ko \<le> 100 \<and> (100 + 100) mod ko = 0 \<and>
      cov_q st' = qCov st' \<and> cov_q st' = [[Fin (99 / 100)]] \<and>
      R2 st' = mat_div (R1 st') (Fin 5)"
    by (intro exI [of _ s]) metis
  from e1 b k(2) have 2: "\<exists>st'. dram_iteration ex_la ex_md 1 1 1 1 ex_prior 1 (ex_draws (- 1 / 2) 0) (ex_state 2) = Inr st' \<and>
      \<not> (ko \<le> 1 \<and> (1 + 1) mod ko = 0) \<and>
      R1 st' = R1 (ex_state 2) \<and> R2 st' = R2 (ex_state 2) \<and> cov_q st' = cov_q (ex_state 2) \<and>
      cov_q_inv st' = cov_q_inv (ex_state 2)"
    by blast
  from 1 2 show ?thesis by blast
qed

lemma qBar_next_length: "length (qBar_next k old qv) = min (length old) (length qv)"
  by (simp add: qBar_next_def vec_div_def vec_add_def vec_scale_def)

lemma qBar_next_nth:
  "i < length old \<Longrightarrow> i < length qv \<Longrightarrow> qBar_next k old qv ! i = spec_qBar k old qv i"
  by (simp add: qBar_next_def spec_qBar_def vec_div_def vec_add_def vec_scale_def)

lemma outer_nth: "i < length u \<Longrightarrow> j < length v \<Longrightarrow> outer u v ! i ! j = fl_mul (u ! i) (v ! j)"
  by (simp add: outer_def)

lemma outer_length: "length (outer u v) = length u"
  by (simp add: outer_def)

lemma outer_row_length: "i < length u \<Longrightarrow> length (outer u v ! i) = length v"
  by (simp add: outer_def)

lemma qCov_next_length:
  "length C = p \<Longrightarrow> length old = p \<Longrightarrow> length new = p \<Longrightarrow> length qv = p \<Longrightarrow>
   length (qCov_next k C old new qv) = p"
  by (simp add: qCov_next_def mat_add_def mat_sub_def mat_scale_def outer_length)

lemma qCov_next_nth:
  assumes "length C = p" "length old = p" "length new = p" "length qv = p"
    and "length (C ! i) = p" "i < p" "j < p"
  shows "length (qCov_next k C old new qv ! i) = p \<and>
         qCov_next k C old new qv ! i ! j = spec_qCov k C old new qv i j"
  using assms
  by (simp add: qCov_next_def spec_qCov_def mat_add_def mat_sub_def mat_scale_def vec_add_def
      vec_sub_def vec_scale_def outer_length outer_row_length outer_nth)

text \<open>
  Claim C5. After row \<open>k\<close> of the chain is recorded (it is the new \<^verbatim>\<open>q\<close>), an iteration
  with \<open>k \<ge> ko\<close> computes \<open>qBar\<close> and \<open>qCov\<close> by lines 337 and 340, which entry by entry are
  the two recursions of the specification (for a state of the right shape: \<open>p\<close> parameters,
  a \<open>p\<close>-by-\<open>p\<close> covariance); the iteration \<open>k = ko - 1\<close> computes them from the first \<open>ko\<close>
  rows of the chain, the row just recorded included; an earlier iteration leaves them as
  they are.
\<close>

theorem running_statistics:
  assumes "dram_iteration la md N n p Mo pri k d st = Inr st'"
  shows
    "chain_q st' ! k = cur_q st' \<and>
     (ko \<le> k \<longrightarrow>
        qBar st' = qBar_next k (qBar st) (chain_q st' ! k) \<and>
        qCov st' = qCov_next k (qCov st) (qBar st) (qBar st') (chain_q st' ! k) \<and>
        (length (qBar st) = p \<and> length (chain_q st' ! k) = p \<and> length (qCov st) = p \<and>
         (\<forall>i<p. length (qCov st ! i) = p) \<longrightarrow>
           length (qBar st') = p \<and> length (qCov st') = p \<and>
           (\<forall>i<p. qBar st' ! i = spec_qBar k (qBar st) (chain_q st' ! k) i \<and>
              length (qCov st' ! i) = p \<and>
              (\<forall>j<p. qCov st' ! i ! j =
                 spec_qCov k (qCov st) (qBar st) (qBar st') (chain_q st' ! k) i j)))) \<and>
     (k = ko - 1 \<longrightarrow>
        qBar st' = col_means (take ko (chain_q st')) \<and>
        qCov st' = np_cov (take ko (chain_q st'))) \<and>
     (k < ko - 1 \<longrightarrow> qBar st' = qBar st \<and> qCov st' = qCov st)"
proof -
  define qk where "qk = dr_q (delayed_rejection md N n d st)"
  from dram_iteration_Inr [OF assms] obtain st1 where a: "adapt la p Mo k qk st1 = Inr st'"
    and f: "qBar st1 = qBar st" "qCov st1 = qCov st" "chain_q st1 = (chain_q st)[k := qk]"
      "cur_q st1 = qk"
    and k: "k < length (chain_q st)"
    unfolding adaptive_metropolis_Inr qk_def by fastforce
  from adapt_chain [OF a] f k have c: "chain_q st' ! k = qk" "cur_q st' = qk"
    "chain_q st' = chain_q st1"
    by simp_all
  note s = adapt_stats [OF a, unfolded f(1,2)]
  have rec: "qBar st' = qBar_next k (qBar st) qk \<and>
        qCov st' = qCov_next k (qCov st) (qBar st) (qBar st') qk" if "ko \<le> k"
    using s that by blast
  have comp: "length (qBar st') = p \<and> length (qCov st') = p \<and>
           (\<forall>i<p. qBar st' ! i = spec_qBar k (qBar st) qk i \<and>
              length (qCov st' ! i) = p \<and>
              (\<forall>j<p. qCov st' ! i ! j = spec_qCov k (qCov st) (qBar st) (qBar st') qk i j))"
    if "ko \<le> k" and sh: "length (qBar st) = p" "length qk = p" "length (qCov st) = p"
      "\<forall>i<p. length (qCov st ! i) = p"
  proof -
    from rec [OF that(1)] have b: "qBar st' = qBar_next k (qBar st) qk"
      and cv: "qCov st' = qCov_next k (qCov st) (qBar st) (qBar st') qk" by simp_all
    have lb: "length (qBar st') = p" using sh by (simp add: b qBar_next_length)
    have lc: "length (qCov st') = p"
      using qCov_next_length [OF sh(3) sh(1) lb sh(2)] cv by simp
    have "qBar st' ! i = spec_qBar k (qBar st) qk i" if "i < p" for i
      using that sh by (simp add: b qBar_next_nth)
    moreover have "length (qCov st' ! i) = p \<and>
        qCov st' ! i ! j = spec_qCov k (qCov st) (qBar st) (qBar st') qk i j"
      if "i < p" "j < p" for i j
      using qCov_next_nth [OF sh(3) sh(1) lb sh(2) _ that, of k] sh(4) that cv by metis
    ultimately show ?thesis using lb lc by (metis sh(4) qCov_next_nth sh(1,2,3) cv)
  qed
  have direct: "qBar st' = col_means (take ko (chain_q st')) \<and>
        qCov st' = np_cov (take ko (chain_q st'))" if "k = ko - 1"
    using s that c(3) by simp
  have early: "qBar st' = qBar st \<and> qCov st' = qCov st" if "k < ko - 1"
    using s that by blast
  show ?thesis
    unfolding c(1) using c(2) rec comp direct early by blast
qed

theorem running_statistics_witness:
  "(\<exists>st'. dram_iteration ex_la ex_md 1 1 1 100 ex_prior 100 (ex_draws 30 0) (ex_state 101) = Inr st' \<and>
      ko \<le> 100 \<and> length (qBar (ex_state 101)) = 1 \<and> length (qCov (ex_state 101)) = 1 \<and>
      length (qCov (ex_state 101) ! 0) = 1 \<and> length (chain_q st' ! 100) = 1 \<and>
      qBar st' ! 0 = spec_qBar 100 (qBar (ex_state 101)) (chain_q st' ! 100) 0 \<and>
      qCov st' ! 0 ! 0 =
        spec_qCov 100 (qCov (ex_state 101)) (qBar (ex_state 101)) (qBar st') (chain_q st' ! 100) 0 0 \<and>
      qBar st' = [Fin 20] \<and> qCov st' = [[Fin (99 / 100)]]) \<and>
   (\<exists>st'. dram_iteration ex_la ex_md 1 1 1 1 ex_prior 99 (ex_draws 30 0) (ex_state 100) = Inr st' \<and>
      99 = ko - 1 \<and> qBar st' = col_means (take ko (chain_q st')) \<and>
      qCov st' = np_cov (take ko (chain_q st'))) \<and>
   (\<exists>st'. dram_iteration ex_la ex_md 1 1 1 1 ex_prior 1 (ex_draws (- 1 / 2) 0) (ex_state 2) = Inr st' \<and>
      1 < ko - 1 \<and> qBar st' = qBar (ex_state 2) \<and> qCov st' = qCov (ex_state 2))"
proof -
  have k: "ko \<le> 100" "99 = ko - 1" "1 < ko - 1"
    by (simp_all add: ko_def)
  define s100 where "s100 = \<lparr>cur_q = [Fin 20], cur_err = [[Fin 1]], cov_q = [[Fin (99 / 100)]],
          cov_q_inv = [[Fin (100 / 99)]], cov_err = [[Fin 1]], cov_err_inv = [[Fin 1]],
          qBar = [Fin 20], qCov = [[Fin (99 / 100)]],
          R1 = [[Fin (sqrt (99 / 100) * 119 / 50)]],
          R2 = [[Fin (sqrt (99 / 100) * 119 / 250)]],
          chain_q = (replicate 101 [Fin 0])[0 := [Fin 20], 100 := [Fin 20]],
          last_cov_q = [[Fin 1]],
          chain_cov_err = (replicate 101 [[Fin 0]])[0 := [[Fin 1]], 100 := [[Fin 1]]]\<rparr>"
  have e100: "dram_iteration ex_la ex_md 1 1 1 100 ex_prior 100 (ex_draws 30 0) (ex_state 101) = Inr s100"
    unfolding s100_def by (rule ex_iteration_100)
  have sh: "length (qBar (ex_state 101)) = 1" "length (qCov (ex_state 101)) = 1"
    "length (qCov (ex_state 101) ! 0) = 1" "length (chain_q s100 ! 100) = 1"
    "qBar s100 = [Fin 20]" "qCov s100 = [[Fin (99 / 100)]]"
    by (simp_all add: ex_state_def s100_def)
  from running_statistics [OF e100] k(1) sh(1-4)
  have a: "qBar s100 ! 0 = spec_qBar 100 (qBar (ex_state 101)) (chain_q s100 ! 100) 0 \<and>
      qCov s100 ! 0 ! 0 =
        spec_qCov 100 (qCov (ex_state 101)) (qBar (ex_state 101)) (qBar s100) (chain_q s100 ! 100) 0 0"
    by (metis less_one)
  obtain s99 where e99: "dram_iteration ex_la ex_md 1 1 1 1 ex_prior 99 (ex_draws 30 0) (ex_state 100) = Inr s99"
    using ex_iteration_99 by blast
  from running_statistics [OF e99] k(2)
  have b: "qBar s99 = col_means (take ko (chain_q s99)) \<and> qCov s99 = np_cov (take ko (chain_q s99))"
    by blast
  obtain s1 where e1: "dram_iteration ex_la ex_md 1 1 1 1 ex_prior 1 (ex_draws (- 1 / 2) 0) (ex_state 2) = Inr s1"
    using ex_iteration_1 by blast
  from running_statistics [OF e1] k(3)
  have c: "qBar s1 = qBar (ex_state 2) \<and> qCov s1 = qCov (ex_state 2)"
    by blast
  from e100 k sh a have 1: "\<exists>st'. dram_iteration ex_la ex_md 1 1 1 100 ex_prior 100 (ex_draws 30 0) (ex_state 101) = Inr st' \<and>
      ko \<le> 100 \<and> length (qBar (ex_state 101)) = 1 \<and> length (qCov (ex_state 101)) = 1 \<and>
      length (qCov (ex_state 101) ! 0) = 1 \<and> length (chain_q st' ! 100) = 1 \<and>
      qBar st' ! 0 = spec_qBar 100 (qBar (ex_state 101)) (chain_q st' ! 100) 0 \<and>
      qCov st' ! 0 ! 0 =
        spec_qCov 100 (qCov (ex_state 101)) (qBar (ex_state 101)) (qBar st') (chain_q st' ! 100) 0 0 \<and>
      qBar st' = [Fin 20] \<and> qCov st' = [[Fin (99 / 100)]]"
    by blast
  from e99 k b have 2: "\<exists>st'. dram_iteration ex_la ex_md 1 1 1 1 ex_prior 99 (ex_draws 30 0) (ex_state 100) = Inr st' \<and>
      99 = ko - 1 \<and> qBar st' = col_means (take ko (chain_q st')) \<and>
      qCov st' = np_cov (take ko (chain_q st'))"
    by blast
  from e1 c k have 3: "\<exists>st'. dram_iteration ex_la ex_md 1 1 1 1 ex_prior 1 (ex_draws (- 1 / 2) 0) (ex_state 2) = Inr st' \<and>
      1 < ko - 1 \<and> qBar st' = qBar (ex_state 2) \<and> qCov st' = qCov (ex_state 2)"
    by blast
  from 1 2 3 show ?thesis by blast
qed

section \<open>The whole call: prior and validation\<close>

lemmas init_defs = getDRAMMIMOChains_def validate_def numDataSets_def numDataPoints_def
  init_state_def init_chain_def init_prior_def init_var_def last_entry_def invert_def
  bind_err_def or_raise_def eval_err_def gram_def Let_def

lemma ex_run_none:
  "getDRAMMIMOChains ex_la (\<lambda>k. ex_draws 0 0) ex_md (ex_dp 1 ex_none) =
     Inr \<lparr>res_prior = \<lparr>psi_s = [[Fin 0]], nu_s = Fin 0\<rparr>, res_chain_q = [[Fin 20]],
          res_last_cov_q = [[Fin 1]], res_chain_cov_err = [[[Fin 1]]]\<rparr>"
  by (simp add: init_defs ex_defs la_defs)

lemma ex_run_psi_nu:
  "getDRAMMIMOChains ex_la (\<lambda>k. ex_draws 0 0) ex_md (ex_dp 1 ex_psi_nu) =
     Inr \<lparr>res_prior = \<lparr>psi_s = [[Fin 3]], nu_s = Fin 7\<rparr>, res_chain_q = [[Fin 20]],
          res_last_cov_q = [[Fin 1]], res_chain_cov_err = [[[Fin 1]]]\<rparr>"
  by (simp add: init_defs ex_defs la_defs ex_psi_nu_def)

lemma chains_prior:
  assumes "getDRAMMIMOChains la rng md dp = Inr res"
  shows "res_prior res = init_prior (length (xdata md)) (previousResults dp)"
  using assms
  by (auto simp: getDRAMMIMOChains_def bind_err_Inr Let_def dest: validate_N)

text \<open>
  Claim C3, as amended. The prior that \<^verbatim>\<open>getDRAMMIMOChains\<close> returns: when \<open>psi_s\<close> is not
  supplied, \<open>psi_s\<close> is the \<open>N\<close>-by-\<open>N\<close> zero matrix and \<open>nu_s\<close> is 0 (whether or not a
  \<open>nu_s\<close> was supplied); when \<open>psi_s\<close> is supplied it is returned unchanged, with the
  supplied \<open>nu_s\<close>, or with \<open>nu_s = 1\<close> when none was supplied.
\<close>

theorem prior_defaults:
  assumes "getDRAMMIMOChains la rng md dp = Inr res"
  shows "(prior_psi_s (previousResults dp) = None \<longrightarrow>
           psi_s (res_prior res) = zeros (length (xdata md)) (length (xdata md)) \<and>
           nu_s (res_prior res) = Fin 0) \<and>
         (\<forall>P. prior_psi_s (previousResults dp) = Some P \<longrightarrow>
           psi_s (res_prior res) = P \<and>
           (\<forall>v. prior_nu_s (previousResults dp) = Some v \<longrightarrow> nu_s (res_prior res) = v) \<and>
           (prior_nu_s (previousResults dp) = None \<longrightarrow> nu_s (res_prior res) = Fin 1))"
  using chains_prior [OF assms] by (auto simp: init_prior_def split: option.splits)

theorem prior_defaults_witness:
  "(\<exists>res. getDRAMMIMOChains ex_la (\<lambda>k. ex_draws 0 0) ex_md (ex_dp 1 ex_none) = Inr res \<and>
      prior_psi_s (previousResults (ex_dp 1 ex_none)) = None \<and>
      psi_s (res_prior res) = zeros (length (xdata ex_md)) (length (xdata ex_md)) \<and>
      nu_s (res_prior res) = Fin 0) \<and>
   (\<exists>res. getDRAMMIMOChains ex_la (\<lambda>k. ex_draws 0 0) ex_md (ex_dp 1 ex_psi_nu) = Inr res \<and>
      prior_psi_s (previousResults (ex_dp 1 ex_psi_nu)) = Some [[Fin 3]] \<and>
      prior_nu_s (previousResults (ex_dp 1 ex_psi_nu)) = Some (Fin 7) \<and>
      psi_s (res_prior res) = [[Fin 3]] \<and> nu_s (res_prior res) = Fin 7) \<and>
   (\<exists>res. getDRAMMIMOChains ex_la (\<lambda>k. ex_draws 0 0) ex_md (ex_dp 1 ex_psi_only) = Inr res \<and>
      prior_psi_s (previousResults (ex_dp 1 ex_psi_only)) = Some [[Fin 3]] \<and>
      prior_nu_s (previousResults (ex_dp 1 ex_psi_only)) = None \<and>
      psi_s (res_prior res) = [[Fin 3]] \<and> nu_s (res_prior res) = Fin 1)"
proof -
  obtain r1 where e1: "getDRAMMIMOChains ex_la (\<lambda>k. ex_draws 0 0) ex_md (ex_dp 1 ex_none) = Inr r1"
    using ex_run_none by blast
  have h1: "prior_psi_s (previousResults (ex_dp 1 ex_none)) = None"
    by (simp add: ex_dp_def ex_none_def)
  from prior_defaults [OF e1] h1
  have c1: "psi_s (res_prior r1) = zeros (length (xdata ex_md)) (length (xdata ex_md)) \<and>
      nu_s (res_prior r1) = Fin 0"
    by blast
  obtain r2 where e2: "getDRAMMIMOChains ex_la (\<lambda>k. ex_draws 0 0) ex_md (ex_dp 1 ex_psi_nu) = Inr r2"
    using ex_run_psi_nu by blast
  have h2: "prior_psi_s (previousResults (ex_dp 1 ex_psi_nu)) = Some [[Fin 3]]"
    "prior_nu_s (previousResults (ex_dp 1 ex_psi_nu)) = Some (Fin 7)"
    by (simp_all add: ex_dp_def ex_none_def ex_psi_nu_def)
  from prior_defaults [OF e2] h2
  have c2: "psi_s (res_prior r2) = [[Fin 3]] \<and> nu_s (res_prior r2) = Fin 7"
    by blast
  obtain r3 where e3: "getDRAMMIMOChains ex_la (\<lambda>k. ex_draws 0 0) ex_md (ex_dp 1 ex_psi_only) = Inr r3"
    by (simp add: init_defs ex_defs la_defs ex_psi_only_def)
  have h3: "prior_psi_s (previousResults (ex_dp 1 ex_psi_only)) = Some [[Fin 3]]"
    "prior_nu_s (previousResults (ex_dp 1 ex_psi_only)) = None"
    by (simp_all add: ex_dp_def ex_none_def ex_psi_only_def)
  from prior_defaults [OF e3] h3
  have c3: "psi_s (res_prior r3) = [[Fin 3]] \<and> nu_s (res_prior r3) = Fin 1"
    by blast
  from e1 h1 c1 e2 h2 c2 e3 h3 c3 show ?thesis by blast
qed

text \<open>
  The claim as it was stated fails: with \<open>psi_s\<close> supplied and \<open>nu_s\<close> not, the returned
  \<open>nu_s\<close> is 1 (line 145), not 0.
\<close>

theorem prior_nu_default_counterexample:
  "getDRAMMIMOChains ex_la (\<lambda>k. ex_draws 0 0) ex_md (ex_dp 1 ex_psi_only) =
     Inr \<lparr>res_prior = \<lparr>psi_s = [[Fin 3]], nu_s = Fin 1\<rparr>, res_chain_q = [[Fin 20]],
          res_last_cov_q = [[Fin 1]], res_chain_cov_err = [[[Fin 1]]]\<rparr> \<and>
   prior_psi_s (previousResults (ex_dp 1 ex_psi_only)) = Some [[Fin 3]] \<and>
   prior_nu_s (previousResults (ex_dp 1 ex_psi_only)) = None \<and>
   Fin 1 \<noteq> Fin 0"
  by (simp add: init_defs ex_defs la_defs ex_psi_only_def)

subsection \<open>Validation\<close>

text \<open>
  The checks of lines 72 to 90, case by case; and the validation errors of a call with at
  least one data set: unequal numbers of sets, a data set whose number of points differs
  from that of the first one, or a previous chain whose number of rows is not the number
  of iterations done, each end the call with a \<^verbatim>\<open>ValueError\<close> before anything is sampled.
\<close>

lemma hd_nds: "hd (numDataSets md) = length (xdata md)"
  by (simp add: numDataSets_def)

lemma hd_ndp:
  "xdata md \<noteq> [] \<Longrightarrow> hd (hd (numDataPoints md (length (xdata md)))) = length (xdata md ! 0)"
  by (simp add: numDataPoints_def hd_map)

lemma sets_unequal_iff:
  "list_ex (\<lambda>c. c \<noteq> length (xdata md)) (numDataSets md) \<longleftrightarrow>
     (\<exists>c \<in> set (numDataSets md). c \<noteq> length (xdata md))"
  unfolding list_ex_iff by (rule refl)

lemma points_unequal_iff:
  "list_ex (list_ex (\<lambda>c. c \<noteq> length (xdata md ! 0))) (numDataPoints md (length (xdata md))) \<longleftrightarrow>
      (\<exists>i < length (xdata md). length (xdata md ! i) \<noteq> length (xdata md ! 0) \<or>
                                length (ydata md ! i) \<noteq> length (xdata md ! 0))"
  unfolding list_ex_iff numDataPoints_def by fastforce


lemma validate_cases:
  "validate md dp =
     (if \<exists>c \<in> set (numDataSets md). c \<noteq> length (xdata md)
      then Inl (ValueError ''Unequal numbers of sets in either data or model.'')
      else if xdata md = [] then Inl IndexError
      else if \<exists>i < length (xdata md). length (xdata md ! i) \<noteq> length (xdata md ! 0) \<or>
                                       length (ydata md ! i) \<noteq> length (xdata md ! 0)
      then Inl (ValueError ''Unequal numbers of data points.'')
      else if numDRAMIterationsDone dp \<noteq> 1
      then (case prev_chain_q (previousResults dp) of
              None \<Rightarrow> Inl NotAnArray
            | Some c \<Rightarrow>
                if numDRAMIterationsDone dp \<noteq> length c
                then Inl (ValueError
                  ''The number of given previous results does not match the number of iterations already done.'')
                else Inr (length (xdata md), length (xdata md ! 0), length (param_values md)))
      else Inr (length (xdata md), length (xdata md ! 0), length (param_values md)))"
proof (cases "xdata md = []")
  case True
  show ?thesis
    unfolding validate_def Let_def hd_nds sets_unequal_iff
    using True by (simp add: list_ex_iff)
next
  case False
  show ?thesis
    unfolding validate_def Let_def hd_nds hd_ndp [OF False] points_unequal_iff sets_unequal_iff
    using False by (simp add: list_ex_iff)
qed


lemma validation_error_with_data:
  assumes "xdata md \<noteq> [] \<or> (\<exists>c \<in> set (numDataSets md). c \<noteq> length (xdata md))"
    and "(\<exists>c \<in> set (numDataSets md). c \<noteq> length (xdata md)) \<or>
         (\<exists>i < length (xdata md). length (xdata md ! i) \<noteq> length (xdata md ! 0) \<or>
                                   length (ydata md ! i) \<noteq> length (xdata md ! 0)) \<or>
         (numDRAMIterationsDone dp \<noteq> 1 \<and>
          (\<exists>c. prev_chain_q (previousResults dp) = Some c \<and> length c \<noteq> numDRAMIterationsDone dp))"
  shows "\<exists>msg. getDRAMMIMOChains la rng md dp = Inl (ValueError msg)"
proof -
  have "\<exists>msg. validate md dp = Inl (ValueError msg)"
  proof (cases "\<exists>c \<in> set (numDataSets md). c \<noteq> length (xdata md)")
    case True
    then show ?thesis unfolding validate_cases by simp
  next
    case eq: False
    with assms(1) have ne: "xdata md \<noteq> []" by blast
    show ?thesis
    proof (cases "\<exists>i < length (xdata md). length (xdata md ! i) \<noteq> length (xdata md ! 0) \<or>
                                   length (ydata md ! i) \<noteq> length (xdata md ! 0)")
      case True
      then show ?thesis
        unfolding validate_cases if_not_P [OF eq] if_not_P [OF ne] by simp
    next
      case pts: False
      with assms(2) eq obtain c where c: "numDRAMIterationsDone dp \<noteq> 1"
        "prev_chain_q (previousResults dp) = Some c" "length c \<noteq> numDRAMIterationsDone dp"
        by blast
      then show ?thesis
        unfolding validate_cases if_not_P [OF eq] if_not_P [OF ne] if_not_P [OF pts]
        by auto
    qed
  qed
  then show ?thesis
    by (auto simp: getDRAMMIMOChains_def bind_err_def)
qed

text \<open>
  Claim C4. The claim promises a validation error whenever the previous chain does not
  have as many rows as iterations were done. With no data set at all the call does end
  before any sampling, but with the \<^verbatim>\<open>IndexError\<close> of line 82 (entry \<open>[0,0]\<close> of an empty
  table), which is raised before the chain length is looked at.
\<close>

theorem no_data_set_index_error:
  "getDRAMMIMOChains la rng ex_empty ex_resume = Inl IndexError \<and>
   numDRAMIterationsDone ex_resume \<noteq> 1 \<and>
   (\<exists>c. prev_chain_q (previousResults ex_resume) = Some c \<and>
      length c \<noteq> numDRAMIterationsDone ex_resume)"
  by (simp add: getDRAMMIMOChains_def validate_def numDataSets_def bind_err_def ex_empty_def
      ex_resume_def ex_none_def Let_def)


section \<open>The samples of the intervals\<close>

subsection \<open>Index selection\<close>

lemma py_get_Inr:
  "0 \<le> i \<Longrightarrow> i < int (length xs) \<Longrightarrow> py_get xs i = Inr (xs ! nat i)"
  by (simp add: py_get_def Let_def)

lemma py_get_nat: "i < length xs \<Longrightarrow> py_get xs (int i) = Inr (xs ! i)"
  by (simp add: py_get_def Let_def)






subsection \<open>The noise of the prediction samples\<close>

lemma py_get_int_Inr: "py_get xs (int i) = Inr r \<longleftrightarrow> i < length xs \<and> r = xs ! i"
  by (auto simp: py_get_def Let_def)

lemma fit_row_Inr:
  "fit_row n y = Inr r \<longleftrightarrow>
     (length y = n \<and> r = y) \<or> (length y \<noteq> n \<and> length y = 1 \<and> r = replicate n (hd y))"
  by (auto simp: fit_row_def)

lemma sample_dataset_offset:
  assumes "sample_dataset md n qi e i = Inr (yrow, orow)"
  shows "i < length e \<and> length yrow = n \<and> length orow = n \<and>
    (\<forall>j<n. orow ! j = fl_add (yrow ! j) (e ! i))"
proof -
  from assms obtain f x where
    y: "fit_row n (f qi (xdata md ! i) x) = Inr yrow"
    and i: "i < length e"
    and o: "fit_row n (map (\<lambda>v. fl_add v (e ! i)) (f qi (xdata md ! i) x)) = Inr orow"
    by (auto simp: sample_dataset_def bind_err_Inr Let_def py_get_int_Inr)
  define yv where "yv = f qi (xdata md ! i) x"
  from y o have "(length yv = n \<and> yrow = yv \<and> orow = map (\<lambda>v. fl_add v (e ! i)) yv) \<or>
      (length yv = 1 \<and> yrow = replicate n (hd yv) \<and>
       orow = replicate n (hd (map (\<lambda>v. fl_add v (e ! i)) yv)))"
    unfolding fit_row_Inr yv_def [symmetric] by auto
  then show ?thesis
  proof
    assume "length yv = n \<and> yrow = yv \<and> orow = map (\<lambda>v. fl_add v (e ! i)) yv"
    with i show ?thesis by simp
  next
    assume a: "length yv = 1 \<and> yrow = replicate n (hd yv) \<and>
       orow = replicate n (hd (map (\<lambda>v. fl_add v (e ! i)) yv))"
    then have "yv \<noteq> []" by auto
    with a i show ?thesis by (simp add: hd_map)
  qed
qed

lemma sample_datasets_Inr:
  "sample_datasets md n qi e js = Inr rs \<Longrightarrow>
   length rs = length js \<and> (\<forall>k<length js. sample_dataset md n qi e (js ! k) = Inr (rs ! k))"
proof (induction js arbitrary: rs)
  case Nil
  then show ?case by simp
next
  case (Cons j js)
  from Cons.prems obtain r rs' where r: "sample_dataset md n qi e j = Inr r"
    and rs': "sample_datasets md n qi e js = Inr rs'" and eq: "rs = r # rs'"
    by (auto simp: bind_err_Inr)
  from Cons.IH [OF rs'] r eq show ?case
    by (auto simp: nth_Cons split: nat.splits)
qed

lemma sample_all_Inr:
  "sample_all md N n chain chain_ce dr idx iis = Inr rs \<Longrightarrow>
   length rs = length iis \<and>
   (\<forall>k<length iis. sample_one md N n chain chain_ce dr idx (iis ! k) = Inr (rs ! k))"
proof (induction iis arbitrary: rs)
  case Nil
  then show ?case by simp
next
  case (Cons ii iis)
  from Cons.prems obtain r rs' where r: "sample_one md N n chain chain_ce dr idx ii = Inr r"
    and rs': "sample_all md N n chain chain_ce dr idx iis = Inr rs'" and eq: "rs = r # rs'"
    by (auto simp: bind_err_Inr)
  from Cons.IH [OF rs'] r eq show ?case
    by (auto simp: nth_Cons split: nat.splits)
qed

lemma sample_one_offset:
  assumes "sample_one md N n chain chain_ce dr idx ii = Inr r" and "ii < length idx"
  shows "length r = N \<and>
    (\<exists>C. py_get chain_ce (idx ! ii) = Inr C \<and>
       (\<forall>i<N. i < length (mvn dr ii (replicate N (Fin 0)) C) \<and>
          length (fst (r ! i)) = n \<and> length (snd (r ! i)) = n \<and>
          (\<forall>j<n. snd (r ! i) ! j =
             fl_add (fst (r ! i) ! j) (mvn dr ii (replicate N (Fin 0)) C ! i))))"
proof -
  from assms obtain qi C where q: "py_get chain (idx ! ii) = Inr qi"
    and c: "py_get chain_ce (idx ! ii) = Inr C"
    and s: "sample_datasets md n qi (mvn dr ii (replicate N (Fin 0)) C) [0..<N] = Inr r"
    by (auto simp: sample_one_def bind_err_Inr Let_def py_get_nat)
  from sample_datasets_Inr [OF s] have l: "length r = N"
    and e: "\<forall>i<N. sample_dataset md n qi (mvn dr ii (replicate N (Fin 0)) C) i = Inr (r ! i)"
    by simp_all
  have "i < length (mvn dr ii (replicate N (Fin 0)) C) \<and>
          length (fst (r ! i)) = n \<and> length (snd (r ! i)) = n \<and>
          (\<forall>j<n. snd (r ! i) ! j =
             fl_add (fst (r ! i) ! j) (mvn dr ii (replicate N (Fin 0)) C ! i))"
    if "i < N" for i
    using sample_dataset_offset [of md n qi "mvn dr ii (replicate N (Fin 0)) C" i "fst (r ! i)" "snd (r ! i)"]
      e that by simp
  with l c show ?thesis by blast
qed

text \<open>
  Claim C10. When \<^verbatim>\<open>getDRAMMIMOIntervals\<close> gets through its sampling loop, then for
  every sample \<open>ii\<close> there is one noise vector: the draw \<open>mvn dr ii\<close> of the
  multivariate-normal sampler with the zero mean of \<open>N\<close> entries and the covariance \<open>C\<close>
  stored in \<^verbatim>\<open>chain_cov_err\<close> at the selected index. The prediction sample of data set
  \<open>i\<close> is the response plus component \<open>i\<close> of that vector at every one of the \<open>n\<close>
  output locations: the offset is the same number for all locations of a data set.
\<close>

theorem noise_offset_per_dataset:
  assumes "getDRAMMIMOIntervals_samples md chain chain_ce nSample dr = Inr s"
  shows
    "let N = length (xdata md); n = length (xdata md ! 0);
         idx = iSample nSample (length chain) dr
     in length (ySave s) = N \<and> length (oSave s) = N \<and>
        (\<forall>i<N. length (ySave s ! i) = nSample \<and> length (oSave s ! i) = nSample) \<and>
        (\<forall>ii<nSample. \<exists>C. py_get chain_ce (idx ! ii) = Inr C \<and>
           (\<forall>i<N. i < length (mvn dr ii (replicate N (Fin 0)) C) \<and>
              length (ySave s ! i ! ii) = n \<and> length (oSave s ! i ! ii) = n \<and>
              (\<forall>j<n. oSave s ! i ! ii ! j =
                 fl_add (ySave s ! i ! ii ! j) (mvn dr ii (replicate N (Fin 0)) C ! i))))"
proof -
  define N where "N = length (xdata md)"
  define n where "n = length (xdata md ! 0)"
  define idx where "idx = iSample nSample (length chain) dr"
  from assms obtain rs where
    rs: "sample_all md N n chain chain_ce dr idx [0..<nSample] = Inr rs"
    and s: "s = \<lparr>ySave = map (\<lambda>i. map (\<lambda>r. fst (r ! i)) rs) [0..<N],
                 oSave = map (\<lambda>i. map (\<lambda>r. snd (r ! i)) rs) [0..<N]\<rparr>"
    by (auto simp: getDRAMMIMOIntervals_samples_def bind_err_Inr Let_def N_def n_def idx_def
        py_get_def split: if_splits)
  from sample_all_Inr [OF rs] have l: "length rs = nSample"
    and e: "\<forall>ii<nSample. sample_one md N n chain chain_ce dr idx ii = Inr (rs ! ii)"
    by simp_all
  have li: "length idx = nSample" by (simp add: idx_def iSample_def)
  have shape: "length (ySave s) = N \<and> length (oSave s) = N \<and>
        (\<forall>i<N. length (ySave s ! i) = nSample \<and> length (oSave s ! i) = nSample)"
    by (simp add: s l)
  have each: "\<exists>C. py_get chain_ce (idx ! ii) = Inr C \<and>
           (\<forall>i<N. i < length (mvn dr ii (replicate N (Fin 0)) C) \<and>
              length (ySave s ! i ! ii) = n \<and> length (oSave s ! i ! ii) = n \<and>
              (\<forall>j<n. oSave s ! i ! ii ! j =
                 fl_add (ySave s ! i ! ii ! j) (mvn dr ii (replicate N (Fin 0)) C ! i)))"
    if "ii < nSample" for ii
  proof -
    from e that have o: "sample_one md N n chain chain_ce dr idx ii = Inr (rs ! ii)" by simp
    from sample_one_offset [OF o] that li obtain C where
      c: "py_get chain_ce (idx ! ii) = Inr C"
      and f: "\<forall>i<N. i < length (mvn dr ii (replicate N (Fin 0)) C) \<and>
          length (fst (rs ! ii ! i)) = n \<and> length (snd (rs ! ii ! i)) = n \<and>
          (\<forall>j<n. snd (rs ! ii ! i) ! j =
             fl_add (fst (rs ! ii ! i) ! j) (mvn dr ii (replicate N (Fin 0)) C ! i))"
      by auto
    have "ySave s ! i ! ii = fst (rs ! ii ! i) \<and> oSave s ! i ! ii = snd (rs ! ii ! i)"
      if "i < N" for i
      using that \<open>ii < nSample\<close> l by (simp add: s)
    with c f show ?thesis by auto
  qed
  show ?thesis
    unfolding Let_def N_def [symmetric] n_def [symmetric] idx_def [symmetric]
    using shape each by blast
qed

lemma ex_samples:
  "getDRAMMIMOIntervals_samples ex_md2 [[Fin 2]] [[[Fin 1, Fin 0], [Fin 0, Fin 1]]] 1 ex_idraws =
     Inr \<lparr>ySave = [[[Fin 0, Fin 2]], [[Fin 0, Fin 2]]],
          oSave = [[[Fin 10, Fin 12]], [[Fin 20, Fin 22]]]\<rparr>"
  by (simp add: getDRAMMIMOIntervals_samples_def sample_one_def sample_dataset_def fit_row_def
      iSample_def py_get_def ex_idraws_def ex_md2_def bind_err_def Let_def)

theorem noise_offset_per_dataset_witness:
  "getDRAMMIMOIntervals_samples ex_md2 [[Fin 2]] [[[Fin 1, Fin 0], [Fin 0, Fin 1]]] 1 ex_idraws =
     Inr \<lparr>ySave = [[[Fin 0, Fin 2]], [[Fin 0, Fin 2]]],
          oSave = [[[Fin 10, Fin 12]], [[Fin 20, Fin 22]]]\<rparr> \<and>
   mvn ex_idraws 0 (replicate 2 (Fin 0)) [[Fin 1, Fin 0], [Fin 0, Fin 1]] = [Fin 10, Fin 20] \<and>
   [[[Fin 10, Fin 12]], [[Fin 20, Fin 22]]] ! 1 ! 0 ! 1 =
     fl_add ([[[Fin 0, Fin 2]], [[Fin 0, Fin 2]]] ! 1 ! 0 ! 1) ([Fin 10, Fin 20] ! 1)"
proof -
  from noise_offset_per_dataset [OF ex_samples]
  have "[[[Fin 10, Fin 12]], [[Fin 20, Fin 22]]] ! 1 ! 0 ! 1 =
     fl_add ([[[Fin 0, Fin 2]], [[Fin 0, Fin 2]]] ! 1 ! 0 ! 1) ([Fin 10, Fin 20] ! 1)"
    by (simp add: ex_md2_def ex_idraws_def iSample_def py_get_def Let_def)
  moreover have
    "mvn ex_idraws 0 (replicate 2 (Fin 0)) [[Fin 1, Fin 0], [Fin 0, Fin 1]] = [Fin 10, Fin 20]"
    by (simp add: ex_idraws_def)
  ultimately show ?thesis using ex_samples by blast
qed

section \<open>The bandwidth of the density estimate\<close>

lemma quartile_ranks:
  fixes n :: nat
  assumes "4 \<le> n"
  shows "1 \<le> \<lfloor>(real n + 1) / 4\<rfloor>" and "\<lfloor>(real n + 1) / 4\<rfloor> < int n"
    and "1 \<le> \<lfloor>(real n + 1) / 4 * 3\<rfloor>" and "\<lfloor>(real n + 1) / 4 * 3\<rfloor> < int n"
proof -
  from assms have a: "1 \<le> (real n + 1) / 4" "(real n + 1) / 4 < real n"
    "1 \<le> (real n + 1) / 4 * 3" "(real n + 1) / 4 * 3 < real n"
    by simp_all
  from a(1) show "1 \<le> \<lfloor>(real n + 1) / 4\<rfloor>" by (simp add: le_floor_iff)
  from a(2) show "\<lfloor>(real n + 1) / 4\<rfloor> < int n" by (simp add: floor_less_iff)
  from a(3) show "1 \<le> \<lfloor>(real n + 1) / 4 * 3\<rfloor>" by (simp add: le_floor_iff)
  from a(4) show "\<lfloor>(real n + 1) / 4 * 3\<rfloor> < int n" by (simp add: floor_less_iff)
qed

lemma interp_rank_code:
  assumes "1 \<le> \<lfloor>r\<rfloor>"
  shows "interp_rank xs r =
    (1 - (r - real_of_int \<lfloor>r\<rfloor>)) * sort xs ! nat (\<lfloor>r\<rfloor> - 1) +
    (r - real_of_int \<lfloor>r\<rfloor>) * sort xs ! nat \<lfloor>r\<rfloor>"
proof -
  from assms have n: "nat \<lfloor>r\<rfloor> - 1 = nat (\<lfloor>r\<rfloor> - 1)" "real (nat \<lfloor>r\<rfloor>) = real_of_int \<lfloor>r\<rfloor>"
    by simp_all
  show ?thesis
    unfolding interp_rank_def order_stat_def Let_def n
    by (simp add: algebra_simps)
qed

lemma bandwidth_short:
  assumes "length col < 4"
  shows "bandwidth col = Inl IndexError"
proof -
  from assms consider "length col = 0" | "length col = 1" | "length col = 2" | "length col = 3"
    by linarith
  then show ?thesis
    by cases (simp_all add: bandwidth_def py_get_def bind_err_def Let_def)
qed

text \<open>
  Claim C7, as amended. For a column of at least four chain rows the bandwidth of the
  kernel is \<open>1.06 min(\<sigma>, IQR / 1.34) n powr (-1/5)\<close>, where \<open>n\<close> is the number of rows, \<open>\<sigma>\<close> is
  the standard deviation of the column with the divisor \<open>n\<close> (\<^verbatim>\<open>np.std\<close>), and \<open>IQR\<close> is
  the difference of the values at the fractional ranks \<open>3(n+1)/4\<close> and \<open>(n+1)/4\<close>, each by
  linear interpolation between the two order statistics around the rank; if \<open>IQR\<close> is not
  strictly positive the bandwidth is \<open>1.06 \<sigma> n powr (-1/5)\<close>.
\<close>

theorem bandwidth_rule:
  assumes "4 \<le> length col"
  shows "bandwidth col = Inr (spec_bandwidth np_std col)"
proof -
  define n where "n = length col"
  define r1 where "r1 = (real n + 1) / 4"
  define r3 where "r3 = r1 * 3"
  define s where "s = sort col"
  have ls: "int (length s) = int n" by (simp add: s_def n_def)
  from assms have n4: "4 \<le> n" by (simp add: n_def)
  note q = quartile_ranks [OF n4, folded r1_def r3_def]
  have g: "py_get s (\<lfloor>r1\<rfloor> - 1) = Inr (s ! nat (\<lfloor>r1\<rfloor> - 1))"
    "py_get s \<lfloor>r1\<rfloor> = Inr (s ! nat \<lfloor>r1\<rfloor>)"
    "py_get s (\<lfloor>r3\<rfloor> - 1) = Inr (s ! nat (\<lfloor>r3\<rfloor> - 1))"
    "py_get s \<lfloor>r3\<rfloor> = Inr (s ! nat \<lfloor>r3\<rfloor>)"
    using q ls by (simp_all add: py_get_Inr)
  have r3': "3 * (real n + 1) / 4 = r3" by (simp add: r3_def r1_def)
  have iqr: "spec_iqr col =
      ((1 - (r3 - real_of_int \<lfloor>r3\<rfloor>)) * s ! nat (\<lfloor>r3\<rfloor> - 1) + (r3 - real_of_int \<lfloor>r3\<rfloor>) * s ! nat \<lfloor>r3\<rfloor>) -
      ((1 - (r1 - real_of_int \<lfloor>r1\<rfloor>)) * s ! nat (\<lfloor>r1\<rfloor> - 1) + (r1 - real_of_int \<lfloor>r1\<rfloor>) * s ! nat \<lfloor>r1\<rfloor>)"
    unfolding spec_iqr_def n_def [symmetric] r3' r1_def [symmetric]
      interp_rank_code [OF q(1)] interp_rank_code [OF q(3)] s_def ..
  show ?thesis
    unfolding bandwidth_def Let_def n_def [symmetric] r1_def [symmetric] r3_def [symmetric]
      s_def [symmetric] g bind_err_def sum.case spec_bandwidth_def iqr [symmetric]
    by (simp add: not_less)
qed


lemma ex_iqr: "spec_iqr [0, 1, 2, 3] = 5 / 2"
  by (simp add: spec_iqr_def interp_rank_def order_stat_def Let_def)

lemma ex_np_std: "np_std [0, 1, 2, 3] = sqrt (5 / 4)"
  by (simp add: np_std_def mean_real_def power2_eq_square)

lemma ex_sample_sd: "sample_sd [0, 1, 2, 3] = sqrt (5 / 3)"
  by (simp add: sample_sd_def mean_real_def power2_eq_square)

lemma ex_sd_small: "sqrt (5 / 4) \<le> 5 / 2 / 1.34" "sqrt (5 / 3) \<le> 5 / 2 / 1.34"
  by (rule real_le_lsqrt; simp add: power2_eq_square)+

lemma ex_bandwidth_3: "bandwidth [0, 1, 2] = Inl IndexError"
  by (simp add: bandwidth_def py_get_def bind_err_def Let_def)


lemma ex_spec_np_std:
  "spec_bandwidth np_std [0, 1, 2, 3] = 1.06 * sqrt (5 / 4) * 4 powr (- 1 / 5)"
  unfolding spec_bandwidth_def ex_iqr ex_np_std using ex_sd_small(1) by (simp add: min_def)

lemma ex_spec_sample_sd:
  "spec_bandwidth sample_sd [0, 1, 2, 3] = 1.06 * sqrt (5 / 3) * 4 powr (- 1 / 5)"
  unfolding spec_bandwidth_def ex_iqr ex_sample_sd using ex_sd_small(2) by (simp add: min_def)

lemma ex_bandwidth_4: "bandwidth [0, 1, 2, 3] = Inr (1.06 * sqrt (5 / 4) * 4 powr (- 1 / 5))"
proof -
  have "bandwidth [0, 1, 2, 3] =
      Inr (1.06 * min (np_std [0, 1, 2, 3]) (5 / 2 / 1.34) * real (length [0, 1, 2, 3 :: real]) powr (- 1 / 5))"
    by (simp add: bandwidth_def py_get_def bind_err_def Let_def)
  also have "\<dots> = Inr (1.06 * sqrt (5 / 4) * 4 powr (- 1 / 5))"
    unfolding ex_np_std using ex_sd_small(1) by (simp add: min_def)
  finally show ?thesis .
qed

lemma ex_bandwidth_const: "bandwidth [1, 1, 1, 1] = Inr 0"
  by (simp add: bandwidth_def py_get_def bind_err_def Let_def np_std_def mean_real_def)

theorem bandwidth_rule_witness:
  "4 \<le> length [0, 1, 2, 3 :: real] \<and>
   bandwidth [0, 1, 2, 3] = Inr (spec_bandwidth np_std [0, 1, 2, 3]) \<and>
   spec_bandwidth np_std [0, 1, 2, 3] = 1.06 * sqrt (5 / 4) * 4 powr (- 1 / 5) \<and>
   4 \<le> length [1, 1, 1, 1 :: real] \<and>
   bandwidth [1, 1, 1, 1] = Inr (spec_bandwidth np_std [1, 1, 1, 1]) \<and>
   bandwidth [1, 1, 1, 1] = Inr 0"
proof -
  have l: "4 \<le> length [0, 1, 2, 3 :: real]" "4 \<le> length [1, 1, 1, 1 :: real]"
    by simp_all
  from bandwidth_rule [OF l(1)] bandwidth_rule [OF l(2)] l ex_spec_np_std ex_bandwidth_const
  show ?thesis by blast
qed

text \<open>
  Claim C7 as it was written does not hold for every column. A column of three rows has
  no bandwidth: \<^verbatim>\<open>chainSorted[i3]\<close> with \<open>i3 = 3\<close> raises \<^verbatim>\<open>IndexError\<close>. And for the column
  \<open>0, 1, 2, 3\<close> the bandwidth is made of \<open>\<sigma> = sqrt (5/4)\<close>, the standard deviation with
  the divisor \<open>n\<close>, not of the standard deviation of a sample, \<open>sqrt (5/3)\<close>.
\<close>

theorem bandwidth_counterexample:
  "bandwidth [0, 1, 2] = Inl IndexError \<and>
   bandwidth [0, 1, 2, 3] = Inr (1.06 * sqrt (5 / 4) * 4 powr (- 1 / 5)) \<and>
   spec_bandwidth sample_sd [0, 1, 2, 3] = 1.06 * sqrt (5 / 3) * 4 powr (- 1 / 5) \<and>
   bandwidth [0, 1, 2, 3] \<noteq> Inr (spec_bandwidth sample_sd [0, 1, 2, 3])"
proof -
  have "sqrt (5 / 4) \<noteq> sqrt (5 / 3)" by simp
  then have "(1.06 * sqrt (5 / 4) * 4 powr (- 1 / 5) :: real) \<noteq> 1.06 * sqrt (5 / 3) * 4 powr (- 1 / 5)"
    by simp
  with ex_bandwidth_3 ex_bandwidth_4 ex_spec_sample_sd show ?thesis by simp
qed
end
